theory Spec2Isabelle
  imports Complex_Main "HOL-Library.AList" "HOL-Library.Multiset" "HOL-Library.Product_Lexorder"
    "HOL-Library.Log_Nat"
begin

section \<open>Data model\<close>

text \<open>
  The analytics core of the quiz bot: the skill tracker (\<open>updateSkillStats\<close>), the
  milestone detector (\<open>checkAndCreateMilestones\<close>), the recommender
  (\<open>calculateCategoryPriority\<close>, \<open>selectOptimalDifficulty\<close>), the team aggregation
  (\<open>calculateAndSaveTeamAnalytics\<close>) and the answer command
  (\<open>handleAnswerCommand\<close>).

  Conventions of the embedding.
  \<^item> A JavaScript \<open>number\<close> that holds a count is a \<open>nat\<close> (the schemas say
    \<open>int().min(0)\<close>); a \<open>number\<close> that holds a rate, an average or a score is an exact
    rational (\<open>rat\<close>): the rounding of IEEE doubles is not modelled, and the decimal
    constants of the source (0.8, 0.4, 0.9, ...) stand for the fractions they denote.
    No division of the modelled code has a zero divisor.
  \<^item> A Firestore collection is an association list from document id to document;
    \<open>doc(id).get()\<close> is \<open>map_of\<close>, \<open>doc(id).set(d)\<close> and \<open>doc(id).update(...)\<close> on an
    existing document are \<open>AList.update\<close>. Collections whose documents get a fresh
    \<open>uuidv4()\<close> id are lists of documents in insertion order.
  \<^item> \<open>Timestamp.now()\<close>, \<open>new Date()\<close> and \<open>uuidv4()\<close> are parameters of the function
    that calls them. Logging is left out.
  \<^item> The enum strings of the source are constructors; \<open>categoryName\<close> gives the string
    where the source builds a document id or compares with a request parameter.
\<close>

datatype Category = bug_fix | performance | refactoring | security | logic

datatype Difficulty = easy | medium | hard

record Timestamp =
  seconds :: int
  nanoseconds :: int

fun categoryName :: "Category \<Rightarrow> string" where
  "categoryName bug_fix = ''bug_fix''"
| "categoryName performance = ''performance''"
| "categoryName refactoring = ''refactoring''"
| "categoryName security = ''security''"
| "categoryName logic = ''logic''"

text \<open>
  \<open>SkillStats\<close> and \<open>UpdateSkillStatsInput\<close> as \<open>SkillStatsSchema\<close> and
  \<open>UpdateSkillStatsInputSchema\<close> declare them (src/src/types/entities/mergeRequest.ts,
  lines 140 to 196): the counts are \<open>int().min(0)\<close>, \<open>lastAnsweredAt\<close> is optional.
\<close>

record SkillStats =
  statId :: string
  accountId :: string
  category :: Category
  totalQuizzes :: nat
  correctCount :: nat
  correctRate :: rat
  averageDifficulty :: rat
  lastAnsweredAt :: "Timestamp option"
  weeklyTrend :: rat
  monthlyTrend :: rat
  calculatedAt :: Timestamp

record UpdateSkillStatsInput =
  accountId :: string
  category :: Category
  difficulty :: Difficulty
  isCorrect :: bool

type_synonym SkillStatsCollection = "(string \<times> SkillStats) list"

section \<open>Double-precision arithmetic\<close>

text \<open>
  A JavaScript \<open>number\<close> is an IEEE 754 binary64 value. \<open>round64 x\<close> is the double
  nearest to the rational \<open>x\<close>, ties going to the even significand: with
  \<open>2^e \<le> |x| < 2^(e+1)\<close> the doubles around \<open>x\<close> are the multiples of \<open>2^(e-52)\<close>.
  The exponent range is not bounded: overflow to infinity and subnormal numbers are
  not modelled (no value computed here comes near either). The arithmetic operators of
  the source are the exact operation followed by one rounding; a decimal literal of
  the source is the double nearest to it.
\<close>

definition expo :: "rat \<Rightarrow> int" where
  "expo x = (let pq = quotient_of \<bar>x\<bar>; k = bitlen (fst pq) - bitlen (snd pq)
             in if 2 powi k \<le> \<bar>x\<bar> then k else k - 1)"

definition roundEven :: "rat \<Rightarrow> int" where
  "roundEven m = (let f = \<lfloor>m\<rfloor>; r = m - of_int f
                  in if r < 1 / 2 then f else if 1 / 2 < r then f + 1
                     else if even f then f else f + 1)"

definition round64 :: "rat \<Rightarrow> rat" where
  "round64 x = (if x = 0 then 0
                else (let s = 2 powi (expo x - 52) in of_int (roundEven (x / s)) * s))"

definition fadd :: "rat \<Rightarrow> rat \<Rightarrow> rat" where
  "fadd x y = round64 (x + y)"

definition fsub :: "rat \<Rightarrow> rat \<Rightarrow> rat" where
  "fsub x y = round64 (x - y)"

definition fmul :: "rat \<Rightarrow> rat \<Rightarrow> rat" where
  "fmul x y = round64 (x * y)"

definition fdiv :: "rat \<Rightarrow> rat \<Rightarrow> rat" where
  "fdiv x y = round64 (x / y)"

definition dbl :: "rat \<Rightarrow> rat" where
  "dbl x = round64 x"

section \<open>SkillTracker: updateSkillStats\<close>

definition generateSkillStatsId :: "string \<Rightarrow> string \<Rightarrow> string" where
  "generateSkillStatsId accId cat = accId @ ''_'' @ cat"

fun difficultyMap :: "Difficulty \<Rightarrow> rat" where
  "difficultyMap easy = 1"
| "difficultyMap medium = 2"
| "difficultyMap hard = 3"

definition updateSkillStats ::
  "Timestamp \<Rightarrow> UpdateSkillStatsInput \<Rightarrow> SkillStatsCollection \<Rightarrow> SkillStatsCollection" where
  "updateSkillStats now input coll =
    (let statId = generateSkillStatsId (UpdateSkillStatsInput.accountId input)
                    (categoryName (UpdateSkillStatsInput.category input));
         difficultyValue = difficultyMap (UpdateSkillStatsInput.difficulty input)
     in case map_of coll statId of
          Some existingData \<Rightarrow>
            (let newTotalQuizzes = SkillStats.totalQuizzes existingData + 1;
                 newCorrectCount =
                   SkillStats.correctCount existingData + (if UpdateSkillStatsInput.isCorrect input then 1 else 0);
                 newCorrectRate = of_nat newCorrectCount / of_nat newTotalQuizzes;
                 newAverageDifficulty =
                   (averageDifficulty existingData * of_nat (SkillStats.totalQuizzes existingData)
                      + difficultyValue) / of_nat newTotalQuizzes
             in AList.update statId
                  (existingData\<lparr>
                     SkillStats.totalQuizzes := newTotalQuizzes,
                     SkillStats.correctCount := newCorrectCount,
                     correctRate := newCorrectRate,
                     averageDifficulty := newAverageDifficulty,
                     lastAnsweredAt := Some now,
                     calculatedAt := now\<rparr>)
                  coll)
        | None \<Rightarrow>
            AList.update statId
              \<lparr>statId = statId,
               SkillStats.accountId = UpdateSkillStatsInput.accountId input,
               SkillStats.category = UpdateSkillStatsInput.category input,
               SkillStats.totalQuizzes = 1,
               SkillStats.correctCount = (if UpdateSkillStatsInput.isCorrect input then 1 else 0),
               correctRate = (if UpdateSkillStatsInput.isCorrect input then 1 else 0),
               averageDifficulty = difficultyValue,
               lastAnsweredAt = Some now,
               weeklyTrend = 0,
               monthlyTrend = 0,
               calculatedAt = now\<rparr>
              coll)"

text \<open>
  A run of answers of one user in one category, each folded into the collection by
  \<open>updateSkillStats\<close> in turn (the calls are sequential). An answer is the clock
  reading of the call, the quiz's difficulty and whether the answer was correct.
\<close>

type_synonym outcome = "Timestamp \<times> Difficulty \<times> bool"

definition outcomeInput :: "string \<Rightarrow> Category \<Rightarrow> outcome \<Rightarrow> UpdateSkillStatsInput" where
  "outcomeInput accId cat oc =
    \<lparr>UpdateSkillStatsInput.accountId = accId, UpdateSkillStatsInput.category = cat,
     UpdateSkillStatsInput.difficulty = fst (snd oc), UpdateSkillStatsInput.isCorrect = snd (snd oc)\<rparr>"


definition statKey :: "string \<Rightarrow> Category \<Rightarrow> string" where
  "statKey accId cat = generateSkillStatsId accId (categoryName cat)"

definition difficultySum :: "outcome list \<Rightarrow> rat" where
  "difficultySum ocs = sum_list (map (\<lambda>oc. difficultyMap (fst (snd oc))) ocs)"


text \<open>
  \<open>updateSkillStats\<close> above computes the rate and the average on exact rationals; it is
  used where only the counts, a single division or the stored fields matter.
  \<open>updateSkillStats64\<close> is the same function with the arithmetic of the source: each
  \<open>*\<close>, \<open>+\<close> and \<open>/\<close> rounds to a double. The counts are integers and stay exact.
\<close>

definition updateSkillStats64 ::
  "Timestamp \<Rightarrow> UpdateSkillStatsInput \<Rightarrow> SkillStatsCollection \<Rightarrow> SkillStatsCollection" where
  "updateSkillStats64 now input coll =
    (let statId = generateSkillStatsId (UpdateSkillStatsInput.accountId input)
                    (categoryName (UpdateSkillStatsInput.category input));
         difficultyValue = difficultyMap (UpdateSkillStatsInput.difficulty input)
     in case map_of coll statId of
          Some existingData \<Rightarrow>
            (let newTotalQuizzes = SkillStats.totalQuizzes existingData + 1;
                 newCorrectCount =
                   SkillStats.correctCount existingData
                     + (if UpdateSkillStatsInput.isCorrect input then 1 else 0);
                 newCorrectRate = fdiv (of_nat newCorrectCount) (of_nat newTotalQuizzes);
                 newAverageDifficulty =
                   fdiv (fadd (fmul (averageDifficulty existingData)
                                    (of_nat (SkillStats.totalQuizzes existingData)))
                              difficultyValue)
                        (of_nat newTotalQuizzes)
             in AList.update statId
                  (existingData\<lparr>
                     SkillStats.totalQuizzes := newTotalQuizzes,
                     SkillStats.correctCount := newCorrectCount,
                     correctRate := newCorrectRate,
                     averageDifficulty := newAverageDifficulty,
                     lastAnsweredAt := Some now,
                     SkillStats.calculatedAt := now\<rparr>)
                  coll)
        | None \<Rightarrow>
            AList.update statId
              \<lparr>statId = statId,
               SkillStats.accountId = UpdateSkillStatsInput.accountId input,
               SkillStats.category = UpdateSkillStatsInput.category input,
               SkillStats.totalQuizzes = 1,
               SkillStats.correctCount = (if UpdateSkillStatsInput.isCorrect input then 1 else 0),
               correctRate = (if UpdateSkillStatsInput.isCorrect input then 1 else 0),
               averageDifficulty = difficultyValue,
               lastAnsweredAt = Some now,
               weeklyTrend = 0,
               monthlyTrend = 0,
               SkillStats.calculatedAt = now\<rparr>
              coll)"

fun applyOutcomes64 ::
  "string \<Rightarrow> Category \<Rightarrow> outcome list \<Rightarrow> SkillStatsCollection \<Rightarrow> SkillStatsCollection" where
  "applyOutcomes64 accId cat [] coll = coll"
| "applyOutcomes64 accId cat (oc # ocs) coll =
     applyOutcomes64 accId cat ocs (updateSkillStats64 (fst oc) (outcomeInput accId cat oc) coll)"

section \<open>MilestoneDetector: checkAndCreateMilestones\<close>

datatype Platform = github | gitlab

record User =
  accountId :: string
  platform :: Platform
  totalQuizzes :: nat
  correctCount :: nat
  createdAt :: Timestamp
  updatedAt :: Timestamp

record Answer =
  answerId :: string
  quizId :: string
  accountId :: string
  mergeRequestId :: string
  selectedAnswerIndex :: nat
  isCorrect :: bool
  category :: Category
  difficulty :: Difficulty
  answeredAt :: Timestamp

datatype MilestoneType =
  first_correct | category_master | streak_achievement | difficulty_unlock | total_milestone

text \<open>
  The \<open>achievement\<close> of a milestone is a Japanese sentence built from a template; the
  model keeps which template it is and the value interpolated into it. The metadata is
  a free-form JSON object: a list of keys with a string or a number each.
\<close>

datatype Achievement =
  FirstCorrectText
| CategoryMasterText Category
| TotalMilestoneText nat

datatype MetaValue = MetaString string | MetaNumber rat

record CreateGrowthMilestoneInput =
  accountId :: string
  type :: MilestoneType
  category :: "Category option"
  achievement :: Achievement
  metadata :: "(string \<times> MetaValue) list option"

record GrowthMilestone =
  milestoneId :: string
  accountId :: string
  type :: MilestoneType
  category :: "Category option"
  achievement :: Achievement
  metadata :: "(string \<times> MetaValue) list option"
  achievedAt :: Timestamp

type_synonym GrowthMilestonesCollection = "GrowthMilestone list"

text \<open>
  \<open>createGrowthMilestone\<close> draws a \<open>uuidv4()\<close> and the clock; both are the argument
  \<open>src\<close>. The new document is added to the collection and returned.
\<close>

definition createGrowthMilestone ::
  "string \<times> Timestamp \<Rightarrow> CreateGrowthMilestoneInput \<Rightarrow> GrowthMilestonesCollection
     \<Rightarrow> GrowthMilestone \<times> GrowthMilestonesCollection" where
  "createGrowthMilestone src input coll =
    (let milestone =
           \<lparr>milestoneId = fst src,
            GrowthMilestone.accountId = CreateGrowthMilestoneInput.accountId input,
            GrowthMilestone.type = CreateGrowthMilestoneInput.type input,
            GrowthMilestone.category = CreateGrowthMilestoneInput.category input,
            GrowthMilestone.achievement = CreateGrowthMilestoneInput.achievement input,
            GrowthMilestone.metadata = CreateGrowthMilestoneInput.metadata input,
            achievedAt = snd src\<rparr>
     in (milestone, coll @ [milestone]))"

text \<open>
  The local array \<open>milestones\<close> of \<open>checkAndCreateMilestones\<close> after the three rules
  have pushed their entries. The query for an existing category master reads the
  collection \<open>coll\<close>.
\<close>

definition totalMilestones :: "nat list" where
  "totalMilestones = [10, 50, 100, 500, 1000]"

definition existingCategoryMasters ::
  "string \<Rightarrow> Category \<Rightarrow> GrowthMilestonesCollection \<Rightarrow> GrowthMilestone list" where
  "existingCategoryMasters accId cat coll =
     filter (\<lambda>m. GrowthMilestone.accountId m = accId
                 \<and> GrowthMilestone.type m = category_master
                 \<and> GrowthMilestone.category m = Some cat) coll"

definition milestoneInputs ::
  "string \<Rightarrow> Answer \<Rightarrow> User \<Rightarrow> SkillStats option \<Rightarrow> GrowthMilestonesCollection
     \<Rightarrow> CreateGrowthMilestoneInput list" where
  "milestoneInputs accId ans usr skillStats coll =
    (let milestones0 = [];
         milestones1 =
           (if Answer.isCorrect ans \<and> User.correctCount usr = 1
            then milestones0 @
                 [\<lparr>CreateGrowthMilestoneInput.accountId = accId,
                   CreateGrowthMilestoneInput.type = first_correct,
                   CreateGrowthMilestoneInput.category = Some (Answer.category ans),
                   CreateGrowthMilestoneInput.achievement = FirstCorrectText,
                   CreateGrowthMilestoneInput.metadata =
                     Some [(''quizId'', MetaString (Answer.quizId ans))]\<rparr>]
            else milestones0);
         milestones2 =
           (case skillStats of
              None \<Rightarrow> milestones1
            | Some st \<Rightarrow>
                if correctRate st \<ge> 8 / 10 \<and> SkillStats.totalQuizzes st \<ge> 5
                then (let existingMilestones =
                            existingCategoryMasters accId (Answer.category ans) coll
                      in if existingMilestones = []
                         then milestones1 @
                              [\<lparr>CreateGrowthMilestoneInput.accountId = accId,
                                CreateGrowthMilestoneInput.type = category_master,
                                CreateGrowthMilestoneInput.category = Some (Answer.category ans),
                                CreateGrowthMilestoneInput.achievement =
                                  CategoryMasterText (Answer.category ans),
                                CreateGrowthMilestoneInput.metadata =
                                  Some [(''correctRate'', MetaNumber (correctRate st)),
                                        (''totalQuizzes'',
                                         MetaNumber (of_nat (SkillStats.totalQuizzes st)))]\<rparr>]
                         else milestones1)
                else milestones1);
         milestones3 =
           (if User.totalQuizzes usr \<in> set totalMilestones
            then milestones2 @
                 [\<lparr>CreateGrowthMilestoneInput.accountId = accId,
                   CreateGrowthMilestoneInput.type = total_milestone,
                   CreateGrowthMilestoneInput.category = None,
                   CreateGrowthMilestoneInput.achievement =
                     TotalMilestoneText (User.totalQuizzes usr),
                   CreateGrowthMilestoneInput.metadata =
                     Some [(''totalQuizzes'', MetaNumber (of_nat (User.totalQuizzes usr))),
                           (''correctRate'',
                            MetaNumber (of_nat (User.correctCount usr)
                                          / of_nat (User.totalQuizzes usr)))]\<rparr>]
            else milestones2)
     in milestones3)"

text \<open>
  The loop \<open>for (const milestone of milestones) await createGrowthMilestone(milestone)\<close>.
  \<open>fresh k\<close> is the uuid and the clock reading drawn for the \<open>k\<close>-th document created.
\<close>

fun createAll ::
  "(nat \<Rightarrow> string \<times> Timestamp) \<Rightarrow> nat \<Rightarrow> CreateGrowthMilestoneInput list
     \<Rightarrow> GrowthMilestonesCollection \<Rightarrow> GrowthMilestonesCollection" where
  "createAll fresh k [] coll = coll"
| "createAll fresh k (m # ms) coll =
     createAll fresh (Suc k) ms (snd (createGrowthMilestone (fresh k) m coll))"

definition checkAndCreateMilestones ::
  "(nat \<Rightarrow> string \<times> Timestamp) \<Rightarrow> string \<Rightarrow> Answer \<Rightarrow> User \<Rightarrow> SkillStats option
     \<Rightarrow> GrowthMilestonesCollection \<Rightarrow> GrowthMilestonesCollection" where
  "checkAndCreateMilestones fresh accId ans usr skillStats coll =
     createAll fresh 0 (milestoneInputs accId ans usr skillStats coll) coll"

text \<open>
  A history of milestone checks run one after the other on the same collection: each
  entry holds the arguments of one call.
\<close>

type_synonym milestoneCheck =
  "(nat \<Rightarrow> string \<times> Timestamp) \<times> string \<times> Answer \<times> User \<times> SkillStats option"

fun runChecks :: "milestoneCheck list \<Rightarrow> GrowthMilestonesCollection \<Rightarrow> GrowthMilestonesCollection" where
  "runChecks [] coll = coll"
| "runChecks ((fresh, accId, ans, usr, skillStats) # cs) coll =
     runChecks cs (checkAndCreateMilestones fresh accId ans usr skillStats coll)"

text \<open>The documents a call of \<open>checkAndCreateMilestones\<close> adds to the collection.\<close>

definition emitted ::
  "(nat \<Rightarrow> string \<times> Timestamp) \<Rightarrow> string \<Rightarrow> Answer \<Rightarrow> User \<Rightarrow> SkillStats option
     \<Rightarrow> GrowthMilestonesCollection \<Rightarrow> GrowthMilestone list" where
  "emitted fresh accId ans usr skillStats coll =
     drop (length coll) (checkAndCreateMilestones fresh accId ans usr skillStats coll)"

text \<open>
  The identifying fields of a milestone document and of a milestone input, and the
  (account, cumulative total) pairs of a history of checks; used to state what a check
  emits.
\<close>

definition docKey ::
  "GrowthMilestone \<Rightarrow> string \<times> MilestoneType \<times> Category option \<times> Achievement" where
  "docKey d = (GrowthMilestone.accountId d, GrowthMilestone.type d, GrowthMilestone.category d,
               GrowthMilestone.achievement d)"

definition inputKey ::
  "CreateGrowthMilestoneInput \<Rightarrow> string \<times> MilestoneType \<times> Category option \<times> Achievement" where
  "inputKey m = (CreateGrowthMilestoneInput.accountId m, CreateGrowthMilestoneInput.type m,
                 CreateGrowthMilestoneInput.category m, CreateGrowthMilestoneInput.achievement m)"

definition checkTotals :: "milestoneCheck list \<Rightarrow> (string \<times> nat) list" where
  "checkTotals cs = map (\<lambda>(fresh, accId, ans, usr, skillStats). (accId, User.totalQuizzes usr)) cs"

definition isTotalKey :: "string \<times> MilestoneType \<times> Category option \<times> Achievement \<Rightarrow> bool" where
  "isTotalKey k = (fst (snd k) = total_milestone)"

definition totalKey :: "string \<times> nat \<Rightarrow> string \<times> MilestoneType \<times> Category option \<times> Achievement" where
  "totalKey an = (fst an, total_milestone, None, TotalMilestoneText (snd an))"

section \<open>Recommender: category priority and difficulty\<close>

record UserProfile =
  accountId :: string
  careerGoal :: "string option"
  experienceLevel :: string
  yearsOfExperience :: rat
  focusAreas :: "Category list option"
  selfAssessment :: "(Category \<times> nat) list option"
  createdAt :: Timestamp
  updatedAt :: Timestamp

text \<open>
  \<open>getDaysSince\<close>: \<open>nowMs\<close> is \<open>new Date().getTime()\<close>. Milliseconds are integers and
  are kept exact (integers below 2^53 are exact doubles); the division by the
  milliseconds of a day is a double division, and \<open>Math.floor\<close> is the floor.
\<close>

definition getDaysSince :: "int \<Rightarrow> Timestamp \<Rightarrow> int" where
  "getDaysSince nowMs timestamp =
    (let lastDate = seconds timestamp * 1000;
         diffMs = nowMs - lastDate
     in \<lfloor>fdiv (of_int diffMs) (1000 * 60 * 60 * 24)\<rfloor>)"

definition calculateCategoryPriority ::
  "int \<Rightarrow> UserProfile \<Rightarrow> SkillStats list \<Rightarrow> Category \<Rightarrow> rat" where
  "calculateCategoryPriority nowMs profile skillStats cat =
    (let score0 = 0;
         categoryStats = find (\<lambda>s. SkillStats.category s = cat) skillStats;
         score1 =
           (case categoryStats of
              Some st \<Rightarrow>
                if SkillStats.totalQuizzes st \<ge> 3
                then (let weaknessScore = fsub 1 (correctRate st)
                      in fadd score0 (fmul weaknessScore (dbl (4 / 10))))
                else fadd score0 (dbl (2 / 10))
            | None \<Rightarrow> fadd score0 (dbl (2 / 10)));
         score2 =
           (case focusAreas profile of
              Some areas \<Rightarrow> if cat \<in> set areas then fadd score1 (dbl (3 / 10)) else score1
            | None \<Rightarrow> score1);
         score3 =
           (case (case categoryStats of Some st \<Rightarrow> lastAnsweredAt st | None \<Rightarrow> None) of
              Some ts \<Rightarrow>
                (let daysSinceLastQuiz = getDaysSince nowMs ts
                 in if daysSinceLastQuiz \<ge> 7 then fadd score2 (dbl (2 / 10))
                    else if daysSinceLastQuiz \<ge> 3 then fadd score2 (dbl (1 / 10))
                    else score2)
            | None \<Rightarrow> fadd score2 (dbl (15 / 100)));
         score4 =
           (case categoryStats of
              Some st \<Rightarrow> if averageDifficulty st < 2 then fadd score3 (dbl (1 / 10)) else score3
            | None \<Rightarrow> score3)
     in score4)"





section \<open>The database\<close>

text \<open>
  The declaration of \<open>Quiz\<close> is not among the sources; its fields are those that
  \<open>createQuiz\<close> writes (the type of \<open>diffReference\<close> is not visible and is kept as a
  string).
\<close>

datatype QuizStatus = pending | answered | skipped | expired

record Quiz =
  quizId :: string
  mergeRequestId :: string
  accountId :: string
  questionText :: string
  category :: Category
  difficulty :: Difficulty
  options :: "string list"
  correctAnswerIndex :: nat
  explanation :: string
  diffReference :: string
  status :: QuizStatus
  createdAt :: Timestamp

record TeamAnalytics =
  analyticsId :: string
  period :: string
  experienceLevel :: "string option"
  category :: "string option"
  avgCorrectRate :: rat
  totalQuizzes :: nat
  activeUsers :: nat
  percentile25 :: rat
  percentile50 :: rat
  percentile75 :: rat
  percentile90 :: rat
  calculatedAt :: Timestamp

record Firestore =
  usersCollection :: "(string \<times> User) list"
  answersCollection :: "Answer list"
  userProfilesCollection :: "(string \<times> UserProfile) list"
  skillStatsCollection :: SkillStatsCollection
  growthMilestonesCollection :: GrowthMilestonesCollection
  teamAnalyticsCollection :: "(string \<times> TeamAnalytics) list"

section \<open>TeamAggregator: calculateAndSaveTeamAnalytics\<close>

text \<open>
  An optional string parameter is used by the source through its truthiness:
  \<open>undefined\<close> and the empty string both count as absent.
\<close>

definition truthy :: "string option \<Rightarrow> bool" where
  "truthy s = (case s of None \<Rightarrow> False | Some v \<Rightarrow> v \<noteq> [])"

definition idSuffix :: "string option \<Rightarrow> string" where
  "idSuffix s = (case s of None \<Rightarrow> [] | Some v \<Rightarrow> if v \<noteq> [] then ''_'' @ v else [])"

text \<open>
  The query for the answers of the period. The bounds come from the JavaScript \<open>Date\<close>
  of the first and the last day of the month and are compared by the storage engine;
  \<open>inPeriod prd t\<close> says whether the stored time \<open>t\<close> passes both comparisons for the
  period \<open>prd\<close>. The category restriction is added when the parameter is truthy.
\<close>

definition answersInPeriod ::
  "(string \<Rightarrow> Timestamp \<Rightarrow> bool) \<Rightarrow> string \<Rightarrow> string option \<Rightarrow> Firestore \<Rightarrow> Answer list" where
  "answersInPeriod inPeriod prd cat db =
    (let answersQuery = filter (\<lambda>a. inPeriod prd (answeredAt a)) (answersCollection db)
     in case cat of
          None \<Rightarrow> answersQuery
        | Some c \<Rightarrow>
            if c \<noteq> [] then filter (\<lambda>a. categoryName (Answer.category a) = c) answersQuery
            else answersQuery)"

record UserStat =
  correct :: nat
  total :: nat

text \<open>
  One round of the loop over the answers. The JavaScript \<open>Map\<close> keeps its keys in
  insertion order and \<open>set\<close> on a present key keeps its place, as \<open>AList.update\<close> does.
\<close>

definition tally :: "(string \<times> UserStat) list \<Rightarrow> Answer \<Rightarrow> (string \<times> UserStat) list" where
  "tally userStats a =
    (let stats0 = (case map_of userStats (Answer.accountId a) of
                     Some st \<Rightarrow> st
                   | None \<Rightarrow> \<lparr>correct = 0, total = 0\<rparr>);
         stats1 = stats0\<lparr>total := total stats0 + 1\<rparr>;
         stats2 = (if Answer.isCorrect a then stats1\<lparr>correct := correct stats1 + 1\<rparr> else stats1)
     in AList.update (Answer.accountId a) stats2 userStats)"

text \<open>
  \<open>getPercentile\<close> is only called with the positive constants 0.25, 0.5, 0.75 and 0.9,
  so the index is never negative.
\<close>

definition getPercentile :: "rat list \<Rightarrow> rat \<Rightarrow> rat" where
  "getPercentile arr percentile =
    (if length arr = 0 then 0
     else (let index = \<lfloor>of_nat (length arr) * percentile\<rfloor>
           in arr ! nat (min index (int (length arr) - 1))))"

definition calculateAndSaveTeamAnalytics ::
  "(string \<Rightarrow> Timestamp \<Rightarrow> bool) \<Rightarrow> Timestamp \<Rightarrow> string \<Rightarrow> string option \<Rightarrow> string option
     \<Rightarrow> Firestore \<Rightarrow> TeamAnalytics \<times> Firestore" where
  "calculateAndSaveTeamAnalytics inPeriod now prd level cat db =
    (let answers = answersInPeriod inPeriod prd cat db;
         userStats = foldl tally [] answers;
         filteredUsers0 = map fst userStats;
         filteredUsers =
           (if truthy level
            then (let profileAccountIds =
                        map fst (filter (\<lambda>doc. Some (UserProfile.experienceLevel (snd doc)) = level)
                                   (userProfilesCollection db))
                  in filter (\<lambda>accId. accId \<in> set profileAccountIds) filteredUsers0)
            else filteredUsers0);
         correctRates =
           sort (map (\<lambda>accId. case map_of userStats accId of
                                 None \<Rightarrow> 0
                               | Some st \<Rightarrow> of_nat (correct st) / of_nat (total st))
                     filteredUsers);
         avgCorrectRate =
           (if length correctRates > 0
            then foldl (+) 0 correctRates / of_nat (length correctRates)
            else 0);
         analyticsId = prd @ idSuffix level @ idSuffix cat;
         teamAnalytics =
           \<lparr>analyticsId = analyticsId,
            period = prd,
            TeamAnalytics.experienceLevel = level,
            TeamAnalytics.category = cat,
            avgCorrectRate = avgCorrectRate,
            TeamAnalytics.totalQuizzes = length answers,
            activeUsers = length filteredUsers,
            percentile25 = getPercentile correctRates (25 / 100),
            percentile50 = getPercentile correctRates (5 / 10),
            percentile75 = getPercentile correctRates (75 / 100),
            percentile90 = getPercentile correctRates (9 / 10),
            TeamAnalytics.calculatedAt = now\<rparr>
     in (teamAnalytics,
         db\<lparr>teamAnalyticsCollection :=
               AList.update analyticsId teamAnalytics (teamAnalyticsCollection db)\<rparr>))"

text \<open>
  The cohort in the spec's words, to be compared with what the loop computes: the
  users of the period are the accounts that have an answer in it; a user's rate is the
  number of their correct answers divided by the number of their answers; with a level
  filter only users whose profile has that level qualify.
\<close>

definition userRate :: "Answer list \<Rightarrow> string \<Rightarrow> rat" where
  "userRate answers accId =
     of_nat (length (filter (\<lambda>a. Answer.accountId a = accId \<and> Answer.isCorrect a) answers))
       / of_nat (length (filter (\<lambda>a. Answer.accountId a = accId) answers))"

definition hasLevel :: "(string \<times> UserProfile) list \<Rightarrow> string option \<Rightarrow> string \<Rightarrow> bool" where
  "hasLevel profiles level accId =
     list_ex (\<lambda>doc. fst doc = accId \<and> Some (UserProfile.experienceLevel (snd doc)) = level) profiles"

definition qualifyingUsers ::
  "Answer list \<Rightarrow> (string \<times> UserProfile) list \<Rightarrow> string option \<Rightarrow> string list" where
  "qualifyingUsers answers profiles level =
     filter (\<lambda>accId. \<not> truthy level \<or> hasLevel profiles level accId)
            (remdups (map Answer.accountId answers))"

definition sortedRates ::
  "Answer list \<Rightarrow> (string \<times> UserProfile) list \<Rightarrow> string option \<Rightarrow> rat list" where
  "sortedRates answers profiles level =
     sort (map (userRate answers) (qualifyingUsers answers profiles level))"

text \<open>The two counts behind a user's rate.\<close>

definition countCorrect :: "Answer list \<Rightarrow> string \<Rightarrow> nat" where
  "countCorrect answers accId =
     length (filter (\<lambda>a. Answer.accountId a = accId \<and> Answer.isCorrect a) answers)"

definition countTotal :: "Answer list \<Rightarrow> string \<Rightarrow> nat" where
  "countTotal answers accId = length (filter (\<lambda>a. Answer.accountId a = accId) answers)"

text \<open>
  The aggregation with the arithmetic of the source. The bounds of the period query are
  \<open>Timestamp.fromDate(new Date(year, month - 1, 1))\<close> and
  \<open>Timestamp.fromDate(new Date(year, month, 0, 23, 59, 59))\<close>, which the runtime computes
  from the period string in its local time zone: they are the parameters \<open>startDate\<close>
  and \<open>endDate\<close>. The store compares timestamps by seconds, then by nanoseconds, and
  both comparisons of the query are inclusive. A user's rate is the double quotient of
  the two counts, the average is the double quotient of the left-to-right double sum of
  the sorted rates by their number, and the percentile index is the floor of the double
  product of the length and the double constant. Counts and lengths are below 2^53 and
  are doubles as they stand.
\<close>

definition timestampLe :: "Timestamp \<Rightarrow> Timestamp \<Rightarrow> bool" where
  "timestampLe s t =
     (seconds s < seconds t \<or> (seconds s = seconds t \<and> nanoseconds s \<le> nanoseconds t))"

definition answersBetween ::
  "Timestamp \<Rightarrow> Timestamp \<Rightarrow> string option \<Rightarrow> Firestore \<Rightarrow> Answer list" where
  "answersBetween startDate endDate cat db =
    (let answersQuery =
           filter (\<lambda>a. timestampLe startDate (answeredAt a) \<and> timestampLe (answeredAt a) endDate)
                  (answersCollection db)
     in case cat of
          None \<Rightarrow> answersQuery
        | Some c \<Rightarrow>
            if c \<noteq> [] then filter (\<lambda>a. categoryName (Answer.category a) = c) answersQuery
            else answersQuery)"

definition getPercentile64 :: "rat list \<Rightarrow> rat \<Rightarrow> rat" where
  "getPercentile64 arr percentile =
    (if length arr = 0 then 0
     else (let index = \<lfloor>fmul (of_nat (length arr)) percentile\<rfloor>
           in arr ! nat (min index (int (length arr) - 1))))"

definition calculateAndSaveTeamAnalytics64 ::
  "Timestamp \<Rightarrow> Timestamp \<Rightarrow> Timestamp \<Rightarrow> string \<Rightarrow> string option \<Rightarrow> string option
     \<Rightarrow> Firestore \<Rightarrow> TeamAnalytics \<times> Firestore" where
  "calculateAndSaveTeamAnalytics64 startDate endDate now prd level cat db =
    (let answers = answersBetween startDate endDate cat db;
         userStats = foldl tally [] answers;
         filteredUsers0 = map fst userStats;
         filteredUsers =
           (if truthy level
            then (let profileAccountIds =
                        map fst (filter (\<lambda>doc. Some (UserProfile.experienceLevel (snd doc)) = level)
                                   (userProfilesCollection db))
                  in filter (\<lambda>accId. accId \<in> set profileAccountIds) filteredUsers0)
            else filteredUsers0);
         correctRates =
           sort (map (\<lambda>accId. case map_of userStats accId of
                                 None \<Rightarrow> 0
                               | Some st \<Rightarrow> fdiv (of_nat (correct st)) (of_nat (total st)))
                     filteredUsers);
         avgCorrectRate =
           (if length correctRates > 0
            then fdiv (foldl fadd 0 correctRates) (of_nat (length correctRates))
            else 0);
         analyticsId = prd @ idSuffix level @ idSuffix cat;
         teamAnalytics =
           \<lparr>analyticsId = analyticsId,
            period = prd,
            TeamAnalytics.experienceLevel = level,
            TeamAnalytics.category = cat,
            avgCorrectRate = avgCorrectRate,
            TeamAnalytics.totalQuizzes = length answers,
            activeUsers = length filteredUsers,
            percentile25 = getPercentile64 correctRates (dbl (25 / 100)),
            percentile50 = getPercentile64 correctRates (dbl (5 / 10)),
            percentile75 = getPercentile64 correctRates (dbl (75 / 100)),
            percentile90 = getPercentile64 correctRates (dbl (9 / 10)),
            TeamAnalytics.calculatedAt = now\<rparr>
     in (teamAnalytics,
         db\<lparr>teamAnalyticsCollection :=
               AList.update analyticsId teamAnalytics (teamAnalyticsCollection db)\<rparr>))"

text \<open>
  The sorted rates of the cohort in the spec's words, each rate being the double nearest
  to the quotient of the user's two counts.
\<close>

definition sortedRates64 ::
  "Answer list \<Rightarrow> (string \<times> UserProfile) list \<Rightarrow> string option \<Rightarrow> rat list" where
  "sortedRates64 answers profiles level =
     sort (map (\<lambda>accId. dbl (userRate answers accId)) (qualifyingUsers answers profiles level))"

section \<open>The answer command: handleAnswerCommand\<close>

record CreateAnswerInput =
  quizId :: string
  accountId :: string
  selectedAnswerIndex :: nat

text \<open>\<open>createAnswer\<close> draws a \<open>uuidv4()\<close> and the clock: the argument \<open>src\<close>.\<close>

definition createAnswer ::
  "string \<times> Timestamp \<Rightarrow> CreateAnswerInput \<Rightarrow> Quiz \<Rightarrow> Firestore \<Rightarrow> Answer \<times> Firestore" where
  "createAnswer src input qz db =
    (let correctNow = (CreateAnswerInput.selectedAnswerIndex input = correctAnswerIndex qz);
         ans =
           \<lparr>answerId = fst src,
            Answer.quizId = CreateAnswerInput.quizId input,
            Answer.accountId = CreateAnswerInput.accountId input,
            Answer.mergeRequestId = Quiz.mergeRequestId qz,
            Answer.selectedAnswerIndex = CreateAnswerInput.selectedAnswerIndex input,
            Answer.isCorrect = correctNow,
            Answer.category = Quiz.category qz,
            Answer.difficulty = Quiz.difficulty qz,
            answeredAt = snd src\<rparr>
     in (ans, db\<lparr>answersCollection := answersCollection db @ [ans]\<rparr>))"

text \<open>
  \<open>getAnswersByUser\<close>: the answers of the account, latest first
  (\<open>orderBy("answeredAt", "desc")\<close>), taken as the order of (seconds, nanoseconds).
\<close>

definition getAnswersByUser :: "string \<Rightarrow> Firestore \<Rightarrow> Answer list" where
  "getAnswersByUser accId db =
     sort_key (\<lambda>a. (- seconds (answeredAt a), - nanoseconds (answeredAt a)))
       (filter (\<lambda>a. Answer.accountId a = accId) (answersCollection db))"

definition getSkillStatsByUser :: "string \<Rightarrow> Firestore \<Rightarrow> SkillStats list" where
  "getSkillStatsByUser accId db =
     map snd (filter (\<lambda>doc. SkillStats.accountId (snd doc) = accId) (skillStatsCollection db))"

text \<open>
  \<open>updateUserStats\<close> calls \<open>docRef.update\<close>, which fails when the user document does not
  exist; the failure is the error value.
\<close>

datatype FirestoreError = NOT_FOUND string

definition updateUserStats ::
  "Timestamp \<Rightarrow> string \<Rightarrow> bool \<Rightarrow> Firestore \<Rightarrow> FirestoreError + Firestore" where
  "updateUserStats now accId correctNow db =
    (case map_of (usersCollection db) accId of
       None \<Rightarrow> Inl (NOT_FOUND accId)
     | Some u \<Rightarrow>
         Inr (db\<lparr>usersCollection :=
                   AList.update accId
                     (u\<lparr>User.totalQuizzes := User.totalQuizzes u + 1,
                        User.updatedAt := now,
                        User.correctCount :=
                          (if correctNow then User.correctCount u + 1 else User.correctCount u)\<rparr>)
                     (usersCollection db)\<rparr>))"

text \<open>
  The result of the command. The \<open>message\<close> field (the rendered Japanese text) is left
  out. \<open>formatCorrectAnswerMessage\<close> sorts the \<open>stats\<close> array in place by descending
  correctRate before the result is built, so after a correct answer the returned
  \<open>stats\<close> are in that order.
\<close>

record AnswerCommandResult =
  success :: bool
  isCorrect :: bool
  quiz :: Quiz
  answer :: Answer
  stats :: "SkillStats list"
  newMilestones :: "GrowthMilestone list"
  alreadyAnswered :: "bool option"

text \<open>
  \<open>src\<close> is the uuid and clock of \<open>createAnswer\<close>, \<open>now2\<close> the clock of
  \<open>updateUserStats\<close>, \<open>now3\<close> the clock of \<open>updateSkillStats\<close>. An error of a storage
  call is rethrown by the \<open>catch\<close> block: the result is the error, and the database
  keeps what was written before it.
\<close>

definition handleAnswerCommand ::
  "string \<times> Timestamp \<Rightarrow> Timestamp \<Rightarrow> Timestamp \<Rightarrow> string \<Rightarrow> Quiz \<Rightarrow> nat \<Rightarrow> Firestore
     \<Rightarrow> (FirestoreError + AnswerCommandResult) \<times> Firestore" where
  "handleAnswerCommand src now2 now3 accId qz answerIndex db =
    (let existingAnswers = getAnswersByUser accId db;
         userAnswer = find (\<lambda>a. Answer.quizId a = Quiz.quizId qz) existingAnswers
     in case userAnswer of
          Some ua \<Rightarrow>
            (let stats0 = getSkillStatsByUser accId db
             in (Inr \<lparr>success = True,
                      AnswerCommandResult.isCorrect = Answer.isCorrect ua,
                      quiz = qz,
                      answer = ua,
                      stats = stats0,
                      newMilestones = [],
                      alreadyAnswered = Some True\<rparr>,
                 db))
        | None \<Rightarrow>
            (let correctNow = (answerIndex = correctAnswerIndex qz);
                 created = createAnswer src
                             \<lparr>CreateAnswerInput.quizId = Quiz.quizId qz,
                              CreateAnswerInput.accountId = accId,
                              CreateAnswerInput.selectedAnswerIndex = answerIndex\<rparr>
                             qz db;
                 ans = fst created;
                 db1 = snd created
             in case updateUserStats now2 accId correctNow db1 of
                  Inl err \<Rightarrow> (Inl err, db1)
                | Inr db2 \<Rightarrow>
                    (let db3 = db2\<lparr>skillStatsCollection :=
                                     updateSkillStats now3
                                       \<lparr>UpdateSkillStatsInput.accountId = accId,
                                        UpdateSkillStatsInput.category = Quiz.category qz,
                                        UpdateSkillStatsInput.difficulty = Quiz.difficulty qz,
                                        UpdateSkillStatsInput.isCorrect = correctNow\<rparr>
                                       (skillStatsCollection db2)\<rparr>;
                         stats0 = getSkillStatsByUser accId db3;
                         newMilestones0 = [];
                         stats1 = (if correctNow
                                   then sort_key (\<lambda>s. - correctRate s) stats0
                                   else stats0)
                     in (Inr \<lparr>success = True,
                              AnswerCommandResult.isCorrect = correctNow,
                              quiz = qz,
                              answer = ans,
                              stats = stats1,
                              newMilestones = newMilestones0,
                              alreadyAnswered = None\<rparr>,
                         db3))))"

section \<open>Properties of the double-precision rounding\<close>

lemma bitlen_powi_bounds:
  assumes "0 < (n::int)"
  shows "(2::rat) powi (bitlen n - 1) \<le> of_int n" and "of_int n < (2::rat) powi (bitlen n)"
proof -
  from bitlen_bounds [OF assms] have lo: "2 ^ nat (bitlen n - 1) \<le> n" and hi: "n < 2 ^ nat (bitlen n)"
    by auto
  have b1: "1 \<le> bitlen n" using assms by (auto simp: bitlen_alt_def)
  have "(2::rat) powi (bitlen n - 1) = 2 ^ nat (bitlen n - 1)"
    using b1 by (simp add: power_int_def)
  also have "\<dots> = of_int (2 ^ nat (bitlen n - 1))" by simp
  also have "\<dots> \<le> of_int n" using lo by (simp only: of_int_le_iff)
  finally show "(2::rat) powi (bitlen n - 1) \<le> of_int n" .
  have "(of_int n :: rat) < of_int (2 ^ nat (bitlen n))" using hi by (simp only: of_int_less_iff)
  also have "\<dots> = 2 ^ nat (bitlen n)" by simp
  also have "\<dots> = (2::rat) powi (bitlen n)" using b1 by (simp add: power_int_def)
  finally show "of_int n < (2::rat) powi (bitlen n)" .
qed

lemma expo_bounds:
  assumes "x \<noteq> 0"
  shows "2 powi (expo x) \<le> \<bar>x\<bar>" and "\<bar>x\<bar> < 2 powi (expo x + 1)"
proof -
  obtain p q where pq: "quotient_of \<bar>x\<bar> = (p, q)" by (cases "quotient_of \<bar>x\<bar>") auto
  then have q: "0 < q" by (rule quotient_of_denom_pos)
  from pq have ax: "\<bar>x\<bar> = of_int p / of_int q" by (rule quotient_of_div)
  from assms have "0 < \<bar>x\<bar>" by simp
  with ax q have p: "0 < p" by (simp add: zero_less_divide_iff)
  let ?k = "bitlen p - bitlen q"
  note P = bitlen_powi_bounds [OF p] and Q = bitlen_powi_bounds [OF q]
  have qpos: "(0::rat) < of_int q" using q by simp
  have up: "\<bar>x\<bar> < 2 powi (?k + 1)"
  proof -
    have "of_int p < (2::rat) powi (bitlen p)" by (rule P(2))
    also have "\<dots> = 2 powi (?k + 1) * 2 powi (bitlen q - 1)"
      by (simp add: power_int_add [symmetric])
    also have "\<dots> \<le> 2 powi (?k + 1) * of_int q"
      using Q(1) by (intro mult_left_mono) simp_all
    finally show ?thesis using qpos by (simp add: ax pos_divide_less_eq)
  qed
  have lo: "2 powi (?k - 1) < \<bar>x\<bar>"
  proof -
    have "(2::rat) powi (?k - 1) * of_int q < 2 powi (?k - 1) * 2 powi (bitlen q)"
      using Q(2) by (intro mult_strict_left_mono) simp_all
    also have "\<dots> = 2 powi (bitlen p - 1)"
      by (simp add: power_int_add [symmetric])
    also have "\<dots> \<le> of_int p" by (rule P(1))
    finally show ?thesis using qpos by (simp add: ax pos_less_divide_eq)
  qed
  show "2 powi (expo x) \<le> \<bar>x\<bar>"
    using lo by (auto simp: expo_def pq Let_def)
  show "\<bar>x\<bar> < 2 powi (expo x + 1)"
    using up by (auto simp: expo_def pq Let_def not_le)
qed

lemma expo_unique:
  assumes "2 powi e \<le> \<bar>x\<bar>" and "\<bar>x\<bar> < 2 powi (e + 1)"
  shows "expo x = e"
proof -
  have "(0::rat) < 2 powi e" by simp
  with assms(1) have "0 < \<bar>x\<bar>" by linarith
  then have nz: "x \<noteq> 0" by simp
  note B = expo_bounds [OF nz]
  have "(2::rat) powi e < 2 powi (expo x + 1)" using assms(1) B(2) by simp
  have 1: "e < expo x + 1"
  proof (rule ccontr)
    assume "\<not> e < expo x + 1"
    then have "expo x + 1 \<le> e" by simp
    then have "(2::rat) powi (expo x + 1) \<le> 2 powi e"
      by (intro power_int_increasing) simp_all
    with \<open>(2::rat) powi e < 2 powi (expo x + 1)\<close> show False by simp
  qed
  have "(2::rat) powi (expo x) < 2 powi (e + 1)" using assms(2) B(1) by simp
  have 2: "expo x < e + 1"
  proof (rule ccontr)
    assume "\<not> expo x < e + 1"
    then have "e + 1 \<le> expo x" by simp
    then have "(2::rat) powi (e + 1) \<le> 2 powi (expo x)"
      by (intro power_int_increasing) simp_all
    with \<open>(2::rat) powi (expo x) < 2 powi (e + 1)\<close> show False by simp
  qed
  from 1 2 show ?thesis by simp
qed


lemma roundEven_bounds:
  "\<bar>of_int (roundEven m) - m\<bar> \<le> 1 / 2"
proof -
  have "of_int \<lfloor>m\<rfloor> \<le> m" "m < of_int \<lfloor>m\<rfloor> + 1" by linarith+
  then show ?thesis
    by (auto simp: roundEven_def Let_def abs_le_iff)
qed

lemma roundEven_of_int [simp]: "roundEven (of_int n) = n"
  by (simp add: roundEven_def Let_def)

lemma roundEven_ge:
  assumes "of_int j \<le> m"
  shows "j \<le> roundEven m"
proof -
  from assms have "j \<le> \<lfloor>m\<rfloor>" by (simp add: le_floor_iff)
  then show ?thesis by (auto simp: roundEven_def Let_def)
qed

lemma roundEven_le:
  assumes "m \<le> of_int j"
  shows "roundEven m \<le> j"
proof (cases "m = of_int j")
  case True
  then show ?thesis by simp
next
  case False
  with assms have "m < of_int j" by simp
  then have "\<lfloor>m\<rfloor> < j" by (simp add: floor_less_iff)
  then show ?thesis by (auto simp: roundEven_def Let_def)
qed

text \<open>Relative error of one rounding: at most 2^-53.\<close>

lemma round64_error:
  "\<bar>round64 x - x\<bar> \<le> \<bar>x\<bar> / 2 ^ 53"
proof (cases "x = 0")
  case True
  then show ?thesis by (simp add: round64_def)
next
  case False
  let ?s = "(2::rat) powi (expo x - 52)"
  have s: "0 < ?s" by simp
  have r: "round64 x = of_int (roundEven (x / ?s)) * ?s"
    using False by (simp add: round64_def Let_def)
  have "round64 x - x = (of_int (roundEven (x / ?s)) - x / ?s) * ?s"
    using s by (simp add: r algebra_simps)
  then have "\<bar>round64 x - x\<bar> = \<bar>of_int (roundEven (x / ?s)) - x / ?s\<bar> * ?s"
    using s by (simp add: abs_mult)
  also have "\<dots> \<le> 1 / 2 * ?s"
    using roundEven_bounds [of "x / ?s"] s by (intro mult_right_mono) simp_all
  also have "\<dots> = 2 powi (expo x) / 2 ^ 53"
    by (simp add: power_int_diff)
  also have "\<dots> \<le> \<bar>x\<bar> / 2 ^ 53"
    using expo_bounds(1) [OF False] by (simp add: divide_right_mono)
  finally show ?thesis .
qed

lemma round64_pos_bounds:
  assumes "0 \<le> x"
  shows "x * (1 - 1 / 2 ^ 53) \<le> round64 x" and "round64 x \<le> x * (1 + 1 / 2 ^ 53)"
proof -
  have e: "\<bar>round64 x - x\<bar> \<le> x / 2 ^ 53"
    using round64_error [of x] assms by simp
  have a: "x * (1 - 1 / 2 ^ 53) = x - x / 2 ^ 53" and b: "x * (1 + 1 / 2 ^ 53) = x + x / 2 ^ 53"
    by (simp_all only: right_diff_distrib distrib_left mult_1_right times_divide_eq_right)
  from e show "x * (1 - 1 / 2 ^ 53) \<le> round64 x" unfolding a by linarith
  from e show "round64 x \<le> x * (1 + 1 / 2 ^ 53)" unfolding b by linarith
qed

lemma round64_nonneg:
  assumes "0 \<le> x"
  shows "0 \<le> round64 x"
proof -
  have "0 \<le> x * (1 - 1 / 2 ^ 53)" using assms by (intro mult_nonneg_nonneg) simp_all
  with round64_pos_bounds(1) [OF assms] show ?thesis by linarith
qed

lemma round64_pos:
  assumes "0 < x"
  shows "0 < round64 x"
proof -
  have "0 < x * (1 - 1 / 2 ^ 53)" using assms by (intro mult_pos_pos) simp_all
  with round64_pos_bounds(1) [of x] assms show ?thesis by linarith
qed

lemma roundEven_minus: "roundEven (- m) = - roundEven m"
proof (cases "m = of_int \<lfloor>m\<rfloor>")
  case True
  then obtain n where "m = of_int n" ..
  then show ?thesis
    by (simp add: roundEven_of_int of_int_minus [symmetric] del: of_int_minus)
next
  case False
  then have fl: "\<lfloor>- m\<rfloor> = - \<lfloor>m\<rfloor> - 1"
    by (simp add: floor_minus ceiling_altdef)
  have r: "0 < m - of_int \<lfloor>m\<rfloor>" "m - of_int \<lfloor>m\<rfloor> < 1"
    using False by linarith+
  show ?thesis
    unfolding roundEven_def Let_def fl
    using r by (auto simp: algebra_simps)
qed

lemma expo_minus [simp]: "expo (- x) = expo x"
  by (simp add: expo_def)

lemma round64_minus: "round64 (- x) = - round64 x"
  by (simp add: round64_def Let_def roundEven_minus)

lemma round64_zero [simp]: "round64 0 = 0"
  by (simp add: round64_def)

lemma round64_idem_pos:
  assumes "0 < x"
  shows "round64 (round64 x) = round64 x"
proof -
  let ?e = "expo x"
  let ?s = "(2::rat) powi (?e - 52)"
  let ?n = "roundEven (x / ?s)"
  have nz: "x \<noteq> 0" using assms by simp
  have s: "0 < ?s" by simp
  have r: "round64 x = of_int ?n * ?s"
    using nz by (simp add: round64_def Let_def)
  have ax: "\<bar>x\<bar> = x" using assms by simp
  note B = expo_bounds [OF nz, unfolded ax]
  have lo: "of_int (2 ^ 52) \<le> x / ?s"
    using B(1) s by (simp add: pos_le_divide_eq power_int_diff)
  have hi: "x / ?s \<le> of_int (2 ^ 53)"
    using B(2) s by (simp add: pos_divide_le_eq power_int_diff power_int_add)
  from roundEven_ge [OF lo] have n_lo: "2 ^ 52 \<le> ?n" .
  from roundEven_le [OF hi] have n_hi: "?n \<le> 2 ^ 53" .
  show ?thesis
  proof (cases "?n = 2 ^ 53")
    case True
    define y where "y = round64 x"
    have "y = of_int (2 ^ 53) * ?s" by (simp only: y_def r True)
    also have "\<dots> = 2 powi (?e + 1)" by (simp add: power_int_diff power_int_add)
    finally have yv: "y = 2 powi (?e + 1)" .
    have ynz: "y \<noteq> 0" by (simp add: yv)
    have e': "expo y = ?e + 1"
      by (rule expo_unique) (simp_all add: yv power_int_add)
    have ry: "round64 y = of_int (roundEven (y / 2 powi (expo y - 52))) * 2 powi (expo y - 52)"
      using ynz by (simp add: round64_def Let_def)
    have q: "y / 2 powi (expo y - 52) = of_int (2 ^ 52)"
      unfolding e' by (simp add: yv power_int_diff power_int_add)
    have "round64 y = of_int (2 ^ 52) * 2 powi (expo y - 52)"
      by (simp only: ry q roundEven_of_int)
    also have "\<dots> = y"
      unfolding e' by (simp add: yv power_int_diff power_int_add)
    finally show ?thesis by (simp only: y_def)
  next
    case False
    with n_hi have n_lt: "?n < 2 ^ 53" by simp
    have pos: "0 < round64 x" using assms by (rule round64_pos)
    have b1: "2 powi ?e \<le> \<bar>round64 x\<bar>"
    proof -
      have "(2::rat) powi ?e = of_int (2 ^ 52) * ?s" by (simp add: power_int_diff)
      also have "\<dots> \<le> of_int ?n * ?s"
      proof (rule mult_right_mono)
        show "(of_int (2 ^ 52) :: rat) \<le> of_int ?n" using n_lo by (simp only: of_int_le_iff)
        show "0 \<le> ?s" by simp
      qed
      finally show ?thesis using pos by (simp add: r)
    qed
    have b2: "\<bar>round64 x\<bar> < 2 powi (?e + 1)"
    proof -
      have "of_int ?n * ?s < of_int (2 ^ 53) * ?s"
      proof (rule mult_strict_right_mono)
        show "(of_int ?n :: rat) < of_int (2 ^ 53)" using n_lt by (simp only: of_int_less_iff)
        show "0 < ?s" by simp
      qed
      also have "\<dots> = (2::rat) powi (?e + 1)" by (simp add: power_int_diff power_int_add)
      finally show ?thesis using pos by (simp add: r)
    qed
    have e': "expo (round64 x) = ?e" by (rule expo_unique [OF b1 b2])
    have "round64 x / ?s = of_int ?n" using s by (simp add: r)
    then have "roundEven (round64 x / ?s) = ?n" by (simp only: roundEven_of_int)
    moreover have "round64 x \<noteq> 0" using pos by simp
    ultimately show ?thesis
      by (simp add: round64_def [of "round64 x"] Let_def e' r [symmetric])
  qed
qed

lemma round64_idem [simp]: "round64 (round64 x) = round64 x"
proof (cases "x = 0")
  case True
  then show ?thesis by simp
next
  case False
  show ?thesis
  proof (cases "0 < x")
    case True
    then show ?thesis by (rule round64_idem_pos)
  next
    case neg: False
    with False have "0 < - x" by simp
    from round64_idem_pos [OF this] show ?thesis
      by (simp add: round64_minus)
  qed
qed

text \<open>An integer below the argument stays below its rounding (arguments under 2^53).\<close>

lemma round64_ge_int:
  assumes "0 < y" and "y < 2 ^ 53" and "of_int j \<le> y"
  shows "of_int j \<le> round64 y"
proof -
  have nz: "y \<noteq> 0" using assms(1) by simp
  have ay: "\<bar>y\<bar> = y" using assms(1) by simp
  note B = expo_bounds [OF nz, unfolded ay]
  have e: "expo y \<le> 52"
  proof (rule ccontr)
    assume "\<not> expo y \<le> 52"
    then have "53 \<le> expo y" by simp
    then have "(2::rat) powi 53 \<le> 2 powi (expo y)"
      by (intro power_int_increasing) simp_all
    with B(1) assms(2) show False by simp
  qed
  define k where "k = nat (52 - expo y)"
  have s: "(2::rat) powi (expo y - 52) = 1 / 2 ^ k"
    using e by (simp add: k_def power_int_def inverse_eq_divide power_one_over)
  have "of_int (j * 2 ^ k) \<le> y / (1 / 2 ^ k)"
    using assms(3) by (simp add: mult_right_mono)
  from roundEven_ge [OF this] have "j * 2 ^ k \<le> roundEven (y / (1 / 2 ^ k))" .
  then have "(of_int (j * 2 ^ k) :: rat) \<le> of_int (roundEven (y / (1 / 2 ^ k)))"
    by (simp only: of_int_le_iff)
  then have "of_int j * 2 ^ k \<le> (of_int (roundEven (y / (1 / 2 ^ k))) :: rat)" by simp
  then have "of_int j \<le> (of_int (roundEven (y / (1 / 2 ^ k))) :: rat) / 2 ^ k"
    by (simp add: pos_le_divide_eq)
  then show ?thesis
    using nz by (simp add: round64_def Let_def s)
qed

lemma round64_floor:
  assumes "0 < y" and "y < 2 ^ 53" and "of_int j \<le> y" and "y * (1 + 1 / 2 ^ 53) < of_int j + 1"
  shows "\<lfloor>round64 y\<rfloor> = j"
proof -
  have "of_int j \<le> round64 y" by (rule round64_ge_int [OF assms(1-3)])
  moreover have "round64 y < of_int j + 1"
    using round64_pos_bounds(2) [of y] assms(1,4) by simp
  ultimately show ?thesis by (simp add: floor_unique)
qed

lemma round64_nonpos:
  assumes "x \<le> 0"
  shows "round64 x \<le> 0"
  using round64_nonneg [of "- x"] assms by (simp add: round64_minus)

section \<open>Properties of the skill tracker\<close>






lemma outcomeInput_key [simp]:
  "statKey (UpdateSkillStatsInput.accountId (outcomeInput a c oc))
     (UpdateSkillStatsInput.category (outcomeInput a c oc)) = statKey a c"
  by (simp add: outcomeInput_def)




lemma updateSkillStats64_new:
  assumes "map_of coll (statKey (UpdateSkillStatsInput.accountId input)
             (UpdateSkillStatsInput.category input)) = None"
  shows "map_of (updateSkillStats64 now input coll)
           (statKey (UpdateSkillStatsInput.accountId input) (UpdateSkillStatsInput.category input))
         = Some \<lparr>statId = statKey (UpdateSkillStatsInput.accountId input)
                            (UpdateSkillStatsInput.category input),
               SkillStats.accountId = UpdateSkillStatsInput.accountId input,
               SkillStats.category = UpdateSkillStatsInput.category input,
               SkillStats.totalQuizzes = 1,
               SkillStats.correctCount = (if UpdateSkillStatsInput.isCorrect input then 1 else 0),
               correctRate = (if UpdateSkillStatsInput.isCorrect input then 1 else 0),
               averageDifficulty = difficultyMap (UpdateSkillStatsInput.difficulty input),
               lastAnsweredAt = Some now,
               weeklyTrend = 0,
               monthlyTrend = 0,
               SkillStats.calculatedAt = now\<rparr>"
  using assms by (simp add: updateSkillStats64_def statKey_def Let_def update_conv')

lemma updateSkillStats64_existing:
  assumes "map_of coll (statKey (UpdateSkillStatsInput.accountId input)
             (UpdateSkillStatsInput.category input)) = Some old"
  shows "map_of (updateSkillStats64 now input coll)
           (statKey (UpdateSkillStatsInput.accountId input) (UpdateSkillStatsInput.category input))
         = Some (old\<lparr>
               SkillStats.totalQuizzes := SkillStats.totalQuizzes old + 1,
               SkillStats.correctCount :=
                 SkillStats.correctCount old
                   + (if UpdateSkillStatsInput.isCorrect input then 1 else 0),
               correctRate :=
                 fdiv (of_nat (SkillStats.correctCount old
                                 + (if UpdateSkillStatsInput.isCorrect input then 1 else 0)))
                      (of_nat (SkillStats.totalQuizzes old + 1)),
               averageDifficulty :=
                 fdiv (fadd (fmul (averageDifficulty old) (of_nat (SkillStats.totalQuizzes old)))
                            (difficultyMap (UpdateSkillStatsInput.difficulty input)))
                      (of_nat (SkillStats.totalQuizzes old + 1)),
               lastAnsweredAt := Some now,
               SkillStats.calculatedAt := now\<rparr>)"
  using assms by (simp add: updateSkillStats64_def statKey_def Let_def update_conv')

text \<open>One update multiplies the error of average * total by at most three roundings.\<close>

lemma running_mean_step:
  fixes a L d :: rat and t j :: nat
  assumes L: "0 < L" and d: "0 < d"
    and lo: "L * (1 - 1 / 2 ^ 53) ^ j \<le> a * of_nat t"
    and hi: "a * of_nat t \<le> L * (1 + 1 / 2 ^ 53) ^ j"
  shows "(L + d) * (1 - 1 / 2 ^ 53) ^ (j + 3)
           \<le> fdiv (fadd (fmul a (of_nat t)) d) (of_nat (t + 1)) * of_nat (t + 1)"
    and "fdiv (fadd (fmul a (of_nat t)) d) (of_nat (t + 1)) * of_nat (t + 1)
           \<le> (L + d) * (1 + 1 / 2 ^ 53) ^ (j + 3)"
proof -
  define m :: rat where "m = 1 - 1 / 2 ^ 53"
  define p :: rat where "p = 1 + 1 / 2 ^ 53"
  have m: "0 < m" "m \<le> 1" and p: "1 \<le> p" "0 < p" by (simp_all add: m_def p_def)
  define A where "A = a * of_nat t"
  define P1 where "P1 = round64 A"
  define P2 where "P2 = round64 (P1 + d)"
  define Q where "Q = P2 / of_nat (t + 1)"
  define R where "R = round64 Q"
  have mj: "0 < m ^ j" "m ^ j \<le> 1" using m by (simp_all add: power_le_one)
  have pj: "1 \<le> p ^ j" using p by simp
  have A0: "0 < A"
  proof -
    have "0 < L * m ^ j" using L mj by simp
    with lo show ?thesis by (simp add: A_def m_def)
  qed
  have P1b: "A * m \<le> P1" "P1 \<le> A * p"
    using round64_pos_bounds [of A] A0 by (simp_all add: P1_def m_def p_def)
  have P10: "0 < P1" using A0 by (simp add: P1_def round64_pos)
  have P2b: "(P1 + d) * m \<le> P2" "P2 \<le> (P1 + d) * p"
    using round64_pos_bounds [of "P1 + d"] P10 d by (simp_all add: P2_def m_def p_def)
  have P20: "0 < P2" using P10 d by (simp add: P2_def round64_pos)
  have Q0: "0 < Q" using P20 by (simp add: Q_def)
  have Rb: "Q * m \<le> R" "R \<le> Q * p"
    using round64_pos_bounds [of Q] Q0 by (simp_all add: R_def m_def p_def)
  define T :: rat where "T = of_nat (t + 1)"
  have T0: "0 < T" by (simp add: T_def)
  have QT: "Q * T = P2" using T0 by (simp add: Q_def T_def)
  have RTlo: "P2 * m \<le> R * T"
  proof -
    have "Q * m * T \<le> R * T"
      using Rb(1) T0 by (intro mult_right_mono) simp_all
    moreover have "Q * m * T = (Q * T) * m" by (simp only: ac_simps)
    ultimately show ?thesis by (simp only: QT)
  qed
  have RThi: "R * T \<le> P2 * p"
  proof -
    have "R * T \<le> Q * p * T"
      using Rb(2) T0 by (intro mult_right_mono) simp_all
    moreover have "Q * p * T = (Q * T) * p" by (simp only: ac_simps)
    ultimately show ?thesis by (simp only: QT)
  qed
  have RT: "fdiv (fadd (fmul a (of_nat t)) d) (of_nat (t + 1)) * of_nat (t + 1) = R * T"
    by (simp only: R_def Q_def P2_def P1_def A_def T_def fdiv_def fadd_def fmul_def)
  \<comment> \<open>upper bound\<close>
  have u1: "P1 + d \<le> (A + d) * p"
  proof -
    have "d \<le> d * p" using d p by simp
    with P1b(2) show ?thesis by (simp add: distrib_right)
  qed
  have u2: "A + d \<le> (L + d) * p ^ j"
  proof -
    have "d \<le> d * p ^ j" using d pj by simp
    with hi show ?thesis by (simp add: A_def p_def distrib_right)
  qed
  have "R * T \<le> P2 * p" by (rule RThi)
  also have "\<dots> \<le> (P1 + d) * p * p"
    using P2b(2) p by (intro mult_right_mono) simp_all
  also have "\<dots> \<le> (A + d) * p * p * p"
    using u1 p by (intro mult_right_mono) simp_all
  also have "\<dots> \<le> (L + d) * p ^ j * p * p * p"
    using u2 p by (intro mult_right_mono) simp_all
  also have "\<dots> = (L + d) * p ^ (j + 3)"
    by (simp add: power_add power3_eq_cube mult.assoc)
  finally show "fdiv (fadd (fmul a (of_nat t)) d) (of_nat (t + 1)) * of_nat (t + 1)
           \<le> (L + d) * (1 + 1 / 2 ^ 53) ^ (j + 3)"
    by (simp only: RT p_def)
  \<comment> \<open>lower bound\<close>
  have l1: "(A + d) * m \<le> P1 + d"
  proof -
    have "d * m \<le> d" using d m by simp
    with P1b(1) show ?thesis by (simp add: distrib_right)
  qed
  have l2: "(L + d) * m ^ j \<le> A + d"
  proof -
    have "d * m ^ j \<le> d" using d mj by simp
    with lo show ?thesis by (simp add: A_def m_def distrib_right)
  qed
  have "(L + d) * m ^ (j + 3) = (L + d) * m ^ j * m * m * m"
    by (simp add: power_add power3_eq_cube mult.assoc)
  also have "\<dots> \<le> (A + d) * m * m * m"
    using l2 m by (intro mult_right_mono) simp_all
  also have "\<dots> \<le> (P1 + d) * m * m"
    using l1 m by (intro mult_right_mono) simp_all
  also have "\<dots> \<le> P2 * m"
    using P2b(1) m by (intro mult_right_mono) simp_all
  also have "\<dots> \<le> R * T" by (rule RTlo)
  finally show "(L + d) * (1 - 1 / 2 ^ 53) ^ (j + 3)
           \<le> fdiv (fadd (fmul a (of_nat t)) d) (of_nat (t + 1)) * of_nat (t + 1)"
    by (simp only: RT m_def)
qed


lemma difficultyMap_range: "1 \<le> difficultyMap d" "difficultyMap d \<le> 3"
  by (cases d; simp)+

lemma difficultySum_range:
  "of_nat (length ocs) \<le> difficultySum ocs" "difficultySum ocs \<le> 3 * of_nat (length ocs)"
proof (induction ocs)
  case Nil
  show "of_nat (length ([] :: outcome list)) \<le> difficultySum []"
    and "difficultySum [] \<le> 3 * of_nat (length ([] :: outcome list))"
    by (simp_all add: difficultySum_def)
next
  case (Cons oc ocs)
  have c: "difficultySum (oc # ocs) = difficultyMap (fst (snd oc)) + difficultySum ocs"
    by (simp add: difficultySum_def)
  show "of_nat (length (oc # ocs)) \<le> difficultySum (oc # ocs)"
    using Cons.IH(1) difficultyMap_range(1) [of "fst (snd oc)"] by (simp add: c)
  show "difficultySum (oc # ocs) \<le> 3 * of_nat (length (oc # ocs))"
    using Cons.IH(2) difficultyMap_range(2) [of "fst (snd oc)"] by (simp add: c)
qed

lemma applyOutcomes64_existing:
  fixes L :: rat
  assumes "map_of coll (statKey a c) = Some old"
    and "0 < L"
    and "L * (1 - 1 / 2 ^ 53) ^ j \<le> averageDifficulty old * of_nat (SkillStats.totalQuizzes old)"
    and "averageDifficulty old * of_nat (SkillStats.totalQuizzes old) \<le> L * (1 + 1 / 2 ^ 53) ^ j"
  shows "\<exists>s. map_of (applyOutcomes64 a c ocs coll) (statKey a c) = Some s
           \<and> SkillStats.totalQuizzes s = SkillStats.totalQuizzes old + length ocs
           \<and> (L + difficultySum ocs) * (1 - 1 / 2 ^ 53) ^ (j + 3 * length ocs)
               \<le> averageDifficulty s * of_nat (SkillStats.totalQuizzes s)
           \<and> averageDifficulty s * of_nat (SkillStats.totalQuizzes s)
               \<le> (L + difficultySum ocs) * (1 + 1 / 2 ^ 53) ^ (j + 3 * length ocs)"
  using assms
proof (induction ocs arbitrary: coll old L j)
  case Nil
  then show ?case by (simp add: difficultySum_def)
next
  case (Cons oc ocs)
  let ?d = "difficultyMap (fst (snd oc))"
  let ?old' = "old\<lparr>
               SkillStats.totalQuizzes := SkillStats.totalQuizzes old + 1,
               SkillStats.correctCount :=
                 SkillStats.correctCount old + (if snd (snd oc) then 1 else 0),
               correctRate :=
                 fdiv (of_nat (SkillStats.correctCount old + (if snd (snd oc) then 1 else 0)))
                      (of_nat (SkillStats.totalQuizzes old + 1)),
               averageDifficulty :=
                 fdiv (fadd (fmul (averageDifficulty old) (of_nat (SkillStats.totalQuizzes old))) ?d)
                      (of_nat (SkillStats.totalQuizzes old + 1)),
               lastAnsweredAt := Some (fst oc),
               SkillStats.calculatedAt := (fst oc)\<rparr>"
  have step: "map_of (updateSkillStats64 (fst oc) (outcomeInput a c oc) coll) (statKey a c) = Some ?old'"
    using updateSkillStats64_existing [of coll "outcomeInput a c oc" old "fst oc"] Cons.prems(1)
    by (simp add: outcomeInput_def)
  have d: "0 < ?d" using difficultyMap_range(1) [of "fst (snd oc)"] by linarith
  note S = running_mean_step [OF Cons.prems(2) d Cons.prems(3) Cons.prems(4)]
  have Ld: "0 < L + ?d" using Cons.prems(2) d by simp
  have lo': "(L + ?d) * (1 - 1 / 2 ^ 53) ^ (j + 3)
        \<le> averageDifficulty ?old' * of_nat (SkillStats.totalQuizzes ?old')"
    using S(1) by simp
  have hi': "averageDifficulty ?old' * of_nat (SkillStats.totalQuizzes ?old')
        \<le> (L + ?d) * (1 + 1 / 2 ^ 53) ^ (j + 3)"
    using S(2) by simp
  from Cons.IH [OF step Ld lo' hi'] obtain s where
    s: "map_of (applyOutcomes64 a c ocs (updateSkillStats64 (fst oc) (outcomeInput a c oc) coll))
          (statKey a c) = Some s"
       "SkillStats.totalQuizzes s = SkillStats.totalQuizzes ?old' + length ocs"
       "(L + ?d + difficultySum ocs) * (1 - 1 / 2 ^ 53) ^ (j + 3 + 3 * length ocs)
               \<le> averageDifficulty s * of_nat (SkillStats.totalQuizzes s)"
       "averageDifficulty s * of_nat (SkillStats.totalQuizzes s)
               \<le> (L + ?d + difficultySum ocs) * (1 + 1 / 2 ^ 53) ^ (j + 3 + 3 * length ocs)"
    by blast
  have c: "L + difficultySum (oc # ocs) = L + ?d + difficultySum ocs"
    by (simp add: difficultySum_def)
  have e: "j + 3 * length (oc # ocs) = j + 3 + 3 * length ocs" by simp
  show ?case
    unfolding c e using s by (intro exI [of _ s]) simp
qed

lemma power_up_bound:
  fixes x :: rat
  assumes "0 \<le> x" and "of_nat n * x < 1"
  shows "(1 + x) ^ n \<le> 1 / (1 - of_nat n * x)"
  using assms(2)
proof (induction n)
  case 0
  then show ?case by simp
next
  case (Suc n)
  have nx: "of_nat n * x < 1"
  proof -
    have "of_nat n * x \<le> of_nat (Suc n) * x" using assms(1) by (simp add: distrib_right)
    with Suc.prems show ?thesis by linarith
  qed
  have d1: "0 < 1 - of_nat n * x" and d2: "0 < 1 - of_nat (Suc n) * x"
    using nx Suc.prems by simp_all
  have "(1 + x) ^ Suc n = (1 + x) ^ n * (1 + x)" by simp
  also have "\<dots> \<le> 1 / (1 - of_nat n * x) * (1 + x)"
    using Suc.IH [OF nx] assms(1) by (intro mult_right_mono) simp_all
  also have "\<dots> \<le> 1 / (1 - of_nat (Suc n) * x)"
  proof -
    have "(1 + x) * (1 - of_nat (Suc n) * x) \<le> 1 - of_nat n * x"
    proof -
      have "(1 + x) * (1 - of_nat (Suc n) * x)
            = 1 - of_nat n * x - of_nat (Suc n) * (x * x)"
        by (simp add: algebra_simps)
      moreover have "0 \<le> of_nat (Suc n) * (x * x)" by simp
      ultimately show ?thesis by linarith
    qed
    then show ?thesis
      using d1 d2 by (simp add: field_simps)
  qed
  finally show ?case .
qed

lemma power_down_bound:
  fixes x :: rat
  assumes "0 \<le> x" and "x \<le> 1"
  shows "1 - of_nat n * x \<le> (1 - x) ^ n"
proof (induction n)
  case 0
  then show ?case by simp
next
  case (Suc n)
  have "1 - of_nat (Suc n) * x \<le> (1 - of_nat n * x) * (1 - x)"
  proof -
    have "(1 - of_nat n * x) * (1 - x) = 1 - of_nat (Suc n) * x + of_nat n * (x * x)"
      by (simp add: algebra_simps)
    moreover have "0 \<le> of_nat n * (x * x)" by simp
    ultimately show ?thesis by linarith
  qed
  also have "\<dots> \<le> (1 - x) ^ n * (1 - x)"
    using Suc.IH assms by (intro mult_right_mono) simp_all
  finally show ?case by (simp only: power_Suc2)
qed


lemma applyOutcomes64_fresh:
  assumes "map_of coll (statKey a c) = None"
  shows "\<exists>s. map_of (applyOutcomes64 a c (oc # ocs) coll) (statKey a c) = Some s
           \<and> SkillStats.totalQuizzes s = 1 + length ocs
           \<and> difficultySum (oc # ocs) * (1 - 1 / 2 ^ 53) ^ (3 * length ocs)
               \<le> averageDifficulty s * of_nat (SkillStats.totalQuizzes s)
           \<and> averageDifficulty s * of_nat (SkillStats.totalQuizzes s)
               \<le> difficultySum (oc # ocs) * (1 + 1 / 2 ^ 53) ^ (3 * length ocs)"
proof -
  let ?first = "\<lparr>statId = statKey a c,
               SkillStats.accountId = a,
               SkillStats.category = c,
               SkillStats.totalQuizzes = 1,
               SkillStats.correctCount = (if snd (snd oc) then 1 else 0),
               correctRate = (if snd (snd oc) then 1 else 0),
               averageDifficulty = difficultyMap (fst (snd oc)),
               lastAnsweredAt = Some (fst oc),
               weeklyTrend = 0,
               monthlyTrend = 0,
               SkillStats.calculatedAt = fst oc\<rparr>"
  have step: "map_of (updateSkillStats64 (fst oc) (outcomeInput a c oc) coll) (statKey a c)
                = Some ?first"
    using updateSkillStats64_new [of coll "outcomeInput a c oc" "fst oc"] assms
    by (simp add: outcomeInput_def)
  have d: "0 < difficultyMap (fst (snd oc))"
    using difficultyMap_range(1) [of "fst (snd oc)"] by linarith
  have lo: "difficultyMap (fst (snd oc)) * (1 - 1 / 2 ^ 53) ^ 0
             \<le> averageDifficulty ?first * of_nat (SkillStats.totalQuizzes ?first)"
    by simp
  have hi: "averageDifficulty ?first * of_nat (SkillStats.totalQuizzes ?first)
             \<le> difficultyMap (fst (snd oc)) * (1 + 1 / 2 ^ 53) ^ 0"
    by simp
  have c: "difficultySum (oc # ocs) = difficultyMap (fst (snd oc)) + difficultySum ocs"
    by (simp add: difficultySum_def)
  from applyOutcomes64_existing [OF step d lo hi, of ocs] show ?thesis
    unfolding c by auto
qed

text \<open>Up to 3000000 roundings move a positive quantity by a factor within 1 +- 1 / (3 * 10^9).\<close>

lemma roundings_bound:
  assumes "k \<le> 3000000"
  shows "1 - 1 / (3 * 10 ^ 9) \<le> (1 - 1 / 2 ^ 53 :: rat) ^ k"
    and "(1 + 1 / 2 ^ 53 :: rat) ^ k \<le> 1 + 1 / (3 * 10 ^ 9)"
proof -
  define u :: rat where "u = 1 / 2 ^ 53"
  define e :: rat where "e = 3000000 / 2 ^ 53"
  have u: "0 \<le> u" "u \<le> 1" by (simp_all add: u_def)
  have "(of_nat k :: rat) \<le> of_nat 3000000" using assms by (rule of_nat_mono)
  then have "(of_nat k :: rat) \<le> 3000000" by simp
  then have "of_nat k * u \<le> 3000000 * u" using u(1) by (rule mult_right_mono)
  then have ku: "of_nat k * u \<le> e" by (simp add: e_def u_def)
  have e: "e < 1" "1 - 1 / (3 * 10 ^ 9) \<le> 1 - e" "1 / (1 - e) \<le> 1 + 1 / (3 * 10 ^ 9)"
    by (simp_all add: e_def)
  have "1 - e \<le> 1 - of_nat k * u" using ku by simp
  also have "\<dots> \<le> (1 - u) ^ k" using u by (rule power_down_bound)
  finally show "1 - 1 / (3 * 10 ^ 9) \<le> (1 - 1 / 2 ^ 53 :: rat) ^ k"
    using e(2) by (simp add: u_def)
  have k1: "of_nat k * u < 1" using ku e(1) by linarith
  have "(1 + u) ^ k \<le> 1 / (1 - of_nat k * u)" using u(1) k1 by (rule power_up_bound)
  also have "\<dots> \<le> 1 / (1 - e)"
    using ku e(1) k1 by (intro divide_left_mono) simp_all
  finally show "(1 + 1 / 2 ^ 53 :: rat) ^ k \<le> 1 + 1 / (3 * 10 ^ 9)"
    using e(3) by (simp add: u_def)
qed

lemma applyOutcomes64_mean:
  assumes "map_of coll (statKey a c) = None" and "ocs \<noteq> []" and "length ocs \<le> 1000000"
  shows "\<exists>s. map_of (applyOutcomes64 a c ocs coll) (statKey a c) = Some s
           \<and> SkillStats.totalQuizzes s = length ocs
           \<and> \<bar>averageDifficulty s - difficultySum ocs / of_nat (length ocs)\<bar> \<le> 1 / 10 ^ 9"
proof -
  from assms(2) obtain y ys where ocs: "ocs = y # ys" by (cases ocs) auto
  define S where "S = difficultySum ocs"
  define N :: rat where "N = of_nat (length ocs)"
  define dl :: rat where "dl = 1 / (3 * 10 ^ 9)"
  from applyOutcomes64_fresh [OF assms(1), of y ys] obtain s where
    s: "map_of (applyOutcomes64 a c ocs coll) (statKey a c) = Some s"
       "SkillStats.totalQuizzes s = length ocs"
       "S * (1 - 1 / 2 ^ 53) ^ (3 * length ys) \<le> averageDifficulty s * N"
       "averageDifficulty s * N \<le> S * (1 + 1 / 2 ^ 53) ^ (3 * length ys)"
    unfolding ocs S_def N_def by auto
  have k: "3 * length ys \<le> 3000000" using assms(3) by (simp add: ocs)
  have N: "1 \<le> N" "N \<le> S" "S \<le> 3 * N"
    using difficultySum_range [of ocs] by (simp_all add: N_def S_def ocs)
  have S: "0 \<le> S" using N by linarith
  have "S * (1 - dl) \<le> S * (1 - 1 / 2 ^ 53) ^ (3 * length ys)"
    using roundings_bound(1) [OF k] S unfolding dl_def by (rule mult_left_mono)
  with s(3) have lo: "S * (1 - dl) \<le> averageDifficulty s * N" by linarith
  have "S * (1 + 1 / 2 ^ 53) ^ (3 * length ys) \<le> S * (1 + dl)"
    using roundings_bound(2) [OF k] S unfolding dl_def by (rule mult_left_mono)
  with s(4) have hi: "averageDifficulty s * N \<le> S * (1 + dl)" by linarith
  have Sd: "S * dl \<le> N * (1 / 10 ^ 9)"
  proof -
    have "S * dl \<le> (3 * N) * dl" using N(3) by (rule mult_right_mono) (simp add: dl_def)
    then show ?thesis by (simp add: dl_def)
  qed
  have e1: "S * (1 - dl) = S - S * dl" and e2: "S * (1 + dl) = S + S * dl"
    by (simp_all only: right_diff_distrib distrib_left mult_1_right)
  have "\<bar>averageDifficulty s * N - S\<bar> \<le> N * (1 / 10 ^ 9)"
    using lo hi Sd unfolding e1 e2 by linarith
  moreover have "averageDifficulty s * N - S = (averageDifficulty s - S / N) * N"
    using N(1) by (simp add: field_simps)
  ultimately have "\<bar>averageDifficulty s - S / N\<bar> * N \<le> (1 / 10 ^ 9) * N"
    using N(1) by (simp add: abs_mult mult.commute)
  then have "\<bar>averageDifficulty s - S / N\<bar> \<le> 1 / 10 ^ 9"
    using N(1) by (simp only: mult_le_cancel_right)
  with s(1,2) show ?thesis unfolding S_def N_def by blast
qed


text \<open>
  Claim C1, as amended. The numeric value of a difficulty is easy 1, medium 2, hard 3.
  A call of \<open>updateSkillStats\<close> for a (user, category) pair that has no stat stores a
  stat with totalQuizzes 1, correctCount 1 for a correct answer and 0 otherwise,
  correctRate equal to correctCount and averageDifficulty equal to the numeric value of
  the difficulty. A call for a pair whose stat \<open>old\<close> exists stores totalQuizzes + 1,
  correctCount plus one for a correct answer, correctRate the double quotient of the new
  counts, and averageDifficulty the double
  (old average * old total + numeric difficulty) / (old total + 1), each of the three
  operations rounded. After a non-empty run of N \<le> 1000000 answers from no stat,
  totalQuizzes is N and averageDifficulty is within 1e-9 of the arithmetic mean of the N
  numeric difficulties.
\<close>

theorem updateSkillStats64_running_stats:
  "difficultyMap easy = 1 \<and> difficultyMap medium = 2 \<and> difficultyMap hard = 3
   \<and> (map_of coll (statKey (UpdateSkillStatsInput.accountId input)
        (UpdateSkillStatsInput.category input)) = None \<longrightarrow>
      (\<exists>s. map_of (updateSkillStats64 now input coll)
              (statKey (UpdateSkillStatsInput.accountId input)
                 (UpdateSkillStatsInput.category input)) = Some s
         \<and> SkillStats.totalQuizzes s = 1
         \<and> SkillStats.correctCount s = (if UpdateSkillStatsInput.isCorrect input then 1 else 0)
         \<and> correctRate s = of_nat (SkillStats.correctCount s)
         \<and> averageDifficulty s = difficultyMap (UpdateSkillStatsInput.difficulty input)))
   \<and> (\<forall>old. map_of coll (statKey (UpdateSkillStatsInput.accountId input)
        (UpdateSkillStatsInput.category input)) = Some old \<longrightarrow>
      (\<exists>s. map_of (updateSkillStats64 now input coll)
              (statKey (UpdateSkillStatsInput.accountId input)
                 (UpdateSkillStatsInput.category input)) = Some s
         \<and> SkillStats.totalQuizzes s = SkillStats.totalQuizzes old + 1
         \<and> SkillStats.correctCount s
             = SkillStats.correctCount old + (if UpdateSkillStatsInput.isCorrect input then 1 else 0)
         \<and> correctRate s
             = fdiv (of_nat (SkillStats.correctCount s)) (of_nat (SkillStats.totalQuizzes s))
         \<and> averageDifficulty s
             = fdiv (fadd (fmul (averageDifficulty old) (of_nat (SkillStats.totalQuizzes old)))
                          (difficultyMap (UpdateSkillStatsInput.difficulty input)))
                    (of_nat (SkillStats.totalQuizzes old + 1))))
   \<and> (map_of coll' (statKey a c) = None \<and> ocs \<noteq> [] \<and> length ocs \<le> 1000000 \<longrightarrow>
      (\<exists>s. map_of (applyOutcomes64 a c ocs coll') (statKey a c) = Some s
         \<and> SkillStats.totalQuizzes s = length ocs
         \<and> \<bar>averageDifficulty s - difficultySum ocs / of_nat (length ocs)\<bar> \<le> 1 / 10 ^ 9))"
proof (intro conjI impI allI)
  show "difficultyMap easy = 1" "difficultyMap medium = 2" "difficultyMap hard = 3"
    by simp_all
next
  assume "map_of coll (statKey (UpdateSkillStatsInput.accountId input)
        (UpdateSkillStatsInput.category input)) = None"
  from updateSkillStats64_new [OF this, of now] show "\<exists>s. map_of (updateSkillStats64 now input coll)
              (statKey (UpdateSkillStatsInput.accountId input)
                 (UpdateSkillStatsInput.category input)) = Some s
         \<and> SkillStats.totalQuizzes s = 1
         \<and> SkillStats.correctCount s = (if UpdateSkillStatsInput.isCorrect input then 1 else 0)
         \<and> correctRate s = of_nat (SkillStats.correctCount s)
         \<and> averageDifficulty s = difficultyMap (UpdateSkillStatsInput.difficulty input)"
    by simp
next
  fix old
  assume "map_of coll (statKey (UpdateSkillStatsInput.accountId input)
        (UpdateSkillStatsInput.category input)) = Some old"
  from updateSkillStats64_existing [OF this, of now] show "\<exists>s. map_of (updateSkillStats64 now input coll)
              (statKey (UpdateSkillStatsInput.accountId input)
                 (UpdateSkillStatsInput.category input)) = Some s
         \<and> SkillStats.totalQuizzes s = SkillStats.totalQuizzes old + 1
         \<and> SkillStats.correctCount s
             = SkillStats.correctCount old + (if UpdateSkillStatsInput.isCorrect input then 1 else 0)
         \<and> correctRate s
             = fdiv (of_nat (SkillStats.correctCount s)) (of_nat (SkillStats.totalQuizzes s))
         \<and> averageDifficulty s
             = fdiv (fadd (fmul (averageDifficulty old) (of_nat (SkillStats.totalQuizzes old)))
                          (difficultyMap (UpdateSkillStatsInput.difficulty input)))
                    (of_nat (SkillStats.totalQuizzes old + 1))"
    by simp
next
  assume h: "map_of coll' (statKey a c) = None \<and> ocs \<noteq> [] \<and> length ocs \<le> 1000000"
  then show "\<exists>s. map_of (applyOutcomes64 a c ocs coll') (statKey a c) = Some s
         \<and> SkillStats.totalQuizzes s = length ocs
         \<and> \<bar>averageDifficulty s - difficultySum ocs / of_nat (length ocs)\<bar> \<le> 1 / 10 ^ 9"
    using applyOutcomes64_mean [of coll' a c ocs] by blast
qed

text \<open>
  Claim C1 as stated fails: the running mean is not the exact arithmetic mean. Twelve
  answers of difficulties 1, 1, 1, 1, 3, 3, 3, 3, 3, 3, 3, 2 have the mean 27 / 12 = 9 / 4,
  which is a double, and the stored averageDifficulty is 2.2500000000000004.
\<close>

theorem updateSkillStats64_running_stats_counterexample:
  "map_option averageDifficulty
     (map_of (applyOutcomes64 ''u1'' logic
        [(\<lparr>seconds = 1, nanoseconds = 0\<rparr>, easy, True),
         (\<lparr>seconds = 2, nanoseconds = 0\<rparr>, easy, True),
         (\<lparr>seconds = 3, nanoseconds = 0\<rparr>, easy, False),
         (\<lparr>seconds = 4, nanoseconds = 0\<rparr>, easy, True),
         (\<lparr>seconds = 5, nanoseconds = 0\<rparr>, hard, True),
         (\<lparr>seconds = 6, nanoseconds = 0\<rparr>, hard, False),
         (\<lparr>seconds = 7, nanoseconds = 0\<rparr>, hard, True),
         (\<lparr>seconds = 8, nanoseconds = 0\<rparr>, hard, True),
         (\<lparr>seconds = 9, nanoseconds = 0\<rparr>, hard, False),
         (\<lparr>seconds = 10, nanoseconds = 0\<rparr>, hard, True),
         (\<lparr>seconds = 11, nanoseconds = 0\<rparr>, hard, True),
         (\<lparr>seconds = 12, nanoseconds = 0\<rparr>, medium, True)] []) ''u1_logic'')
     = Some (5066549580791809 / 2251799813685248)
   \<and> difficultySum
        [(\<lparr>seconds = 1, nanoseconds = 0\<rparr>, easy, True),
         (\<lparr>seconds = 2, nanoseconds = 0\<rparr>, easy, True),
         (\<lparr>seconds = 3, nanoseconds = 0\<rparr>, easy, False),
         (\<lparr>seconds = 4, nanoseconds = 0\<rparr>, easy, True),
         (\<lparr>seconds = 5, nanoseconds = 0\<rparr>, hard, True),
         (\<lparr>seconds = 6, nanoseconds = 0\<rparr>, hard, False),
         (\<lparr>seconds = 7, nanoseconds = 0\<rparr>, hard, True),
         (\<lparr>seconds = 8, nanoseconds = 0\<rparr>, hard, True),
         (\<lparr>seconds = 9, nanoseconds = 0\<rparr>, hard, False),
         (\<lparr>seconds = 10, nanoseconds = 0\<rparr>, hard, True),
         (\<lparr>seconds = 11, nanoseconds = 0\<rparr>, hard, True),
         (\<lparr>seconds = 12, nanoseconds = 0\<rparr>, medium, True)] / 12 = 9 / 4
   \<and> dbl (9 / 4) = 9 / 4
   \<and> (5066549580791809 / 2251799813685248 :: rat) \<noteq> 9 / 4"
  by code_simp

theorem updateSkillStats64_running_stats_witness:
  "(\<exists>s. map_of (updateSkillStats64 \<lparr>seconds = 100, nanoseconds = 0\<rparr>
             \<lparr>UpdateSkillStatsInput.accountId = ''u1'', UpdateSkillStatsInput.category = security,
              UpdateSkillStatsInput.difficulty = hard, UpdateSkillStatsInput.isCorrect = True\<rparr> []) ''u1_security'' = Some s
       \<and> SkillStats.totalQuizzes s = 1 \<and> SkillStats.correctCount s = 1
       \<and> correctRate s = 1 \<and> averageDifficulty s = 3)
   \<and> (\<exists>s. map_of (updateSkillStats64 \<lparr>seconds = 100, nanoseconds = 0\<rparr>
             \<lparr>UpdateSkillStatsInput.accountId = ''u1'', UpdateSkillStatsInput.category = security,
              UpdateSkillStatsInput.difficulty = hard, UpdateSkillStatsInput.isCorrect = True\<rparr>
             [(''u1_security'',
               \<lparr>statId = ''u1_security'', SkillStats.accountId = ''u1'',
                SkillStats.category = security, SkillStats.totalQuizzes = 3,
                SkillStats.correctCount = 1, correctRate = dbl (1 / 3), averageDifficulty = 2,
                lastAnsweredAt = None, weeklyTrend = 0, monthlyTrend = 0,
                SkillStats.calculatedAt = \<lparr>seconds = 0, nanoseconds = 0\<rparr>\<rparr>)]) ''u1_security'' = Some s
       \<and> SkillStats.totalQuizzes s = 4 \<and> SkillStats.correctCount s = 2
       \<and> correctRate s = 1 / 2 \<and> averageDifficulty s = 9 / 4)
   \<and> (\<exists>s. map_of (applyOutcomes64 ''u1'' security
             [(\<lparr>seconds = 1, nanoseconds = 0\<rparr>, easy, True),
              (\<lparr>seconds = 2, nanoseconds = 0\<rparr>, hard, False),
              (\<lparr>seconds = 3, nanoseconds = 0\<rparr>, hard, True)] []) ''u1_security'' = Some s
       \<and> SkillStats.totalQuizzes s = 3
       \<and> \<bar>averageDifficulty s - 7 / 3\<bar> \<le> 1 / 10 ^ 9)"
proof -
  let ?inp = "\<lparr>UpdateSkillStatsInput.accountId = ''u1'', UpdateSkillStatsInput.category = security,
              UpdateSkillStatsInput.difficulty = hard, UpdateSkillStatsInput.isCorrect = True\<rparr>"
  let ?now = "\<lparr>seconds = 100, nanoseconds = 0\<rparr>"
  let ?old = "\<lparr>statId = ''u1_security'', SkillStats.accountId = ''u1'',
                SkillStats.category = security, SkillStats.totalQuizzes = 3,
                SkillStats.correctCount = 1, correctRate = dbl (1 / 3), averageDifficulty = 2,
                lastAnsweredAt = None, weeklyTrend = 0, monthlyTrend = 0,
                SkillStats.calculatedAt = \<lparr>seconds = 0, nanoseconds = 0\<rparr>\<rparr>"
  let ?ocs = "[(\<lparr>seconds = 1, nanoseconds = 0\<rparr>, easy, True),
              (\<lparr>seconds = 2, nanoseconds = 0\<rparr>, hard, False),
              (\<lparr>seconds = 3, nanoseconds = 0\<rparr>, hard, True)]"
  have k: "statKey ''u1'' security = ''u1_security''"
    by (simp add: statKey_def generateSkillStatsId_def)
  have v1: "fdiv 2 4 = 1 / 2" by code_simp
  have v2: "fdiv (fadd (fmul 2 3) 3) 4 = 9 / 4" by code_simp
  note T1 = updateSkillStats64_running_stats [of "[]" ?inp ?now "[]" "''u1''" security ?ocs]
  note T2 = updateSkillStats64_running_stats
              [of "[(''u1_security'', ?old)]" ?inp ?now "[]" "''u1''" security ?ocs]
  have A: "\<exists>s. map_of (updateSkillStats64 ?now ?inp []) ''u1_security'' = Some s
       \<and> SkillStats.totalQuizzes s = 1 \<and> SkillStats.correctCount s = 1
       \<and> correctRate s = 1 \<and> averageDifficulty s = 3"
    using T1 [THEN conjunct2, THEN conjunct2, THEN conjunct2, THEN conjunct1] by (auto simp: k)
  have B: "\<exists>s. map_of (updateSkillStats64 ?now ?inp [(''u1_security'', ?old)]) ''u1_security'' = Some s
       \<and> SkillStats.totalQuizzes s = 4 \<and> SkillStats.correctCount s = 2
       \<and> correctRate s = 1 / 2 \<and> averageDifficulty s = 9 / 4"
    using T2 [THEN conjunct2, THEN conjunct2, THEN conjunct2, THEN conjunct2, THEN conjunct1]
    by (auto simp: k v1 v2)
  have C: "\<exists>s. map_of (applyOutcomes64 ''u1'' security ?ocs []) ''u1_security'' = Some s
       \<and> SkillStats.totalQuizzes s = 3
       \<and> \<bar>averageDifficulty s - 7 / 3\<bar> \<le> 1 / 10 ^ 9"
    using T1 [THEN conjunct2, THEN conjunct2, THEN conjunct2, THEN conjunct2, THEN conjunct2]
    by (auto simp: k difficultySum_def)
  from A B C show ?thesis by blast
qed







section \<open>Properties of the milestone detector\<close>

lemma createAll_append:
  "\<exists>docs. createAll fresh k ms coll = coll @ docs
      \<and> map docKey docs = map inputKey ms"
proof (induction ms arbitrary: k coll)
  case Nil
  then show ?case by simp
next
  case (Cons m ms)
  let ?d = "fst (createGrowthMilestone (fresh k) m coll)"
  have c: "snd (createGrowthMilestone (fresh k) m coll) = coll @ [?d]"
    by (simp add: createGrowthMilestone_def Let_def)
  have d: "docKey ?d = inputKey m"
    by (simp add: createGrowthMilestone_def Let_def docKey_def inputKey_def)
  from Cons.IH [of "Suc k" "coll @ [?d]"] obtain docs where
    docs: "createAll fresh (Suc k) ms (coll @ [?d]) = (coll @ [?d]) @ docs"
      "map docKey docs = map inputKey ms"
    by blast
  show ?case
  proof (intro exI conjI)
    show "createAll fresh k (m # ms) coll = coll @ (?d # docs)"
      using docs(1) c by simp
    show "map docKey (?d # docs) = map inputKey (m # ms)"
      using docs(2) d by simp
  qed
qed

lemma check_append:
  "checkAndCreateMilestones fresh accId ans usr st coll
     = coll @ emitted fresh accId ans usr st coll"
  using createAll_append [of fresh 0 "milestoneInputs accId ans usr st coll" coll]
  by (auto simp: checkAndCreateMilestones_def emitted_def)

lemma emitted_keys:
  "map docKey (emitted fresh accId ans usr st coll)
     = map inputKey (milestoneInputs accId ans usr st coll)"
  using createAll_append [of fresh 0 "milestoneInputs accId ans usr st coll" coll]
  by (auto simp: checkAndCreateMilestones_def emitted_def)

lemma inputKeys_eq:
  "map inputKey (milestoneInputs accId ans usr st coll)
   = (if Answer.isCorrect ans \<and> User.correctCount usr = 1
      then [(accId, first_correct, Some (Answer.category ans), FirstCorrectText)] else [])
   @ (if (\<exists>s. st = Some s \<and> 8 / 10 \<le> correctRate s \<and> 5 \<le> SkillStats.totalQuizzes s)
         \<and> existingCategoryMasters accId (Answer.category ans) coll = []
      then [(accId, category_master, Some (Answer.category ans),
             CategoryMasterText (Answer.category ans))] else [])
   @ (if User.totalQuizzes usr \<in> set totalMilestones
      then [(accId, total_milestone, None, TotalMilestoneText (User.totalQuizzes usr))] else [])"
  by (cases st) (simp_all add: milestoneInputs_def inputKey_def Let_def)

lemma existingCategoryMasters_append:
  "existingCategoryMasters a c (coll @ docs)
     = existingCategoryMasters a c coll @ existingCategoryMasters a c docs"
  by (simp add: existingCategoryMasters_def)

lemma existingCategoryMasters_keys:
  "length (existingCategoryMasters a c docs)
     = length (filter (\<lambda>k. fst k = a \<and> fst (snd k) = category_master \<and> fst (snd (snd k)) = Some c)
                 (map docKey docs))"
  by (simp add: existingCategoryMasters_def docKey_def filter_map comp_def)

lemma emitted_masters:
  "length (existingCategoryMasters a c (emitted fresh accId ans usr st coll))
     = (if (\<exists>s. st = Some s \<and> 8 / 10 \<le> correctRate s \<and> 5 \<le> SkillStats.totalQuizzes s)
           \<and> existingCategoryMasters accId (Answer.category ans) coll = []
           \<and> a = accId \<and> c = Answer.category ans
        then 1 else 0)"
  by (auto simp: existingCategoryMasters_keys emitted_keys inputKeys_eq)

lemma check_preserves_at_most_one:
  assumes "\<And>a c. length (existingCategoryMasters a c coll) \<le> 1"
  shows "length (existingCategoryMasters a c
           (checkAndCreateMilestones fresh accId ans usr st coll)) \<le> 1"
proof -
  have "length (existingCategoryMasters a c (checkAndCreateMilestones fresh accId ans usr st coll))
        = length (existingCategoryMasters a c coll)
          + length (existingCategoryMasters a c (emitted fresh accId ans usr st coll))"
    by (simp add: check_append [of fresh accId ans usr st coll] existingCategoryMasters_append)
  with assms [of a c] show ?thesis
    by (auto simp: emitted_masters split: if_splits)
qed

lemma runChecks_at_most_one:
  assumes "\<And>a c. length (existingCategoryMasters a c coll) \<le> 1"
  shows "length (existingCategoryMasters a c (runChecks cs coll)) \<le> 1"
  using assms
proof (induction cs arbitrary: coll a c)
  case Nil
  then show ?case by simp
next
  case (Cons chk cs)
  obtain fresh accId ans usr st where chk: "chk = (fresh, accId, ans, usr, st)"
    by (cases chk) auto
  have "\<And>a c. length (existingCategoryMasters a c
           (checkAndCreateMilestones fresh accId ans usr st coll)) \<le> 1"
    using check_preserves_at_most_one [of coll] Cons.prems by blast
  from Cons.IH [OF this] show ?case by (simp add: chk)
qed

lemma emitted_type_iff:
  "(\<exists>m \<in> set (emitted fresh accId ans usr st coll). GrowthMilestone.type m = ty)
     \<longleftrightarrow> (\<exists>k \<in> set (map inputKey (milestoneInputs accId ans usr st coll)). fst (snd k) = ty)"
proof -
  have "(\<exists>m \<in> set (emitted fresh accId ans usr st coll). GrowthMilestone.type m = ty)
     \<longleftrightarrow> (\<exists>k \<in> set (map docKey (emitted fresh accId ans usr st coll)). fst (snd k) = ty)"
    by (auto simp: docKey_def)
  then show ?thesis by (simp only: emitted_keys)
qed

lemma total_keys_step:
  "filter isTotalKey (map docKey (checkAndCreateMilestones fresh accId ans usr st coll))
   = filter isTotalKey (map docKey coll)
     @ map totalKey (filter (\<lambda>an. snd an \<in> set totalMilestones) [(accId, User.totalQuizzes usr)])"
proof -
  have "map docKey (checkAndCreateMilestones fresh accId ans usr st coll)
        = map docKey coll @ map inputKey (milestoneInputs accId ans usr st coll)"
    by (simp add: check_append [of fresh accId ans usr st coll] emitted_keys)
  then show ?thesis
    by (simp add: inputKeys_eq isTotalKey_def totalKey_def)
qed

lemma total_keys_run:
  "filter isTotalKey (map docKey (runChecks cs coll))
   = filter isTotalKey (map docKey coll)
     @ map totalKey (filter (\<lambda>an. snd an \<in> set totalMilestones) (checkTotals cs))"
proof (induction cs arbitrary: coll)
  case Nil
  then show ?case by (simp add: checkTotals_def)
next
  case (Cons chk cs)
  obtain fresh accId ans usr st where chk: "chk = (fresh, accId, ans, usr, st)"
    by (cases chk) auto
  have t: "checkTotals (chk # cs) = (accId, User.totalQuizzes usr) # checkTotals cs"
    by (simp add: checkTotals_def chk)
  have "filter isTotalKey (map docKey (runChecks (chk # cs) coll))
        = filter isTotalKey (map docKey (checkAndCreateMilestones fresh accId ans usr st coll))
          @ map totalKey (filter (\<lambda>an. snd an \<in> set totalMilestones) (checkTotals cs))"
    using Cons.IH [of "checkAndCreateMilestones fresh accId ans usr st coll"]
    by (simp add: chk)
  then show ?case
    by (simp only: total_keys_step t append_assoc filter_append [symmetric] map_append [symmetric]
          filter.simps append.simps) simp
qed

text \<open>
  Claim C3. A call of \<open>checkAndCreateMilestones\<close> emits a category-master milestone if
  and only if the stat passed in is present with correctRate \<open>\<ge>\<close> 0.8 and
  totalQuizzes \<open>\<ge>\<close> 5 and the collection holds no category-master milestone for the
  account and the answer's category; the one emitted is for that pair and no other.
  A call keeps "at most one category-master milestone per (account, category)", so
  after any history of sequential checks starting from the empty collection every
  (account, category) pair has at most one.
\<close>

theorem category_master_at_most_once:
  "((\<exists>m \<in> set (emitted fresh accId ans usr st coll). GrowthMilestone.type m = category_master)
      \<longleftrightarrow> (\<exists>s. st = Some s \<and> 8 / 10 \<le> correctRate s \<and> 5 \<le> SkillStats.totalQuizzes s)
           \<and> existingCategoryMasters accId (Answer.category ans) coll = [])
   \<and> length (existingCategoryMasters a c (emitted fresh accId ans usr st coll))
       = (if (\<exists>s. st = Some s \<and> 8 / 10 \<le> correctRate s \<and> 5 \<le> SkillStats.totalQuizzes s)
             \<and> existingCategoryMasters accId (Answer.category ans) coll = []
             \<and> a = accId \<and> c = Answer.category ans
          then 1 else 0)
   \<and> ((\<forall>a' c'. length (existingCategoryMasters a' c' coll) \<le> 1) \<longrightarrow>
        (\<forall>a' c'. length (existingCategoryMasters a' c'
                     (checkAndCreateMilestones fresh accId ans usr st coll)) \<le> 1))
   \<and> (\<forall>a' c'. length (existingCategoryMasters a' c' (runChecks cs [])) \<le> 1)"
proof (intro conjI)
  show "(\<exists>m \<in> set (emitted fresh accId ans usr st coll). GrowthMilestone.type m = category_master)
      \<longleftrightarrow> (\<exists>s. st = Some s \<and> 8 / 10 \<le> correctRate s \<and> 5 \<le> SkillStats.totalQuizzes s)
           \<and> existingCategoryMasters accId (Answer.category ans) coll = []"
    unfolding emitted_type_iff inputKeys_eq by auto
  show "length (existingCategoryMasters a c (emitted fresh accId ans usr st coll))
       = (if (\<exists>s. st = Some s \<and> 8 / 10 \<le> correctRate s \<and> 5 \<le> SkillStats.totalQuizzes s)
             \<and> existingCategoryMasters accId (Answer.category ans) coll = []
             \<and> a = accId \<and> c = Answer.category ans
          then 1 else 0)"
    by (rule emitted_masters)
  show "(\<forall>a' c'. length (existingCategoryMasters a' c' coll) \<le> 1) \<longrightarrow>
        (\<forall>a' c'. length (existingCategoryMasters a' c'
                     (checkAndCreateMilestones fresh accId ans usr st coll)) \<le> 1)"
    using check_preserves_at_most_one [of coll] by blast
  show "\<forall>a' c'. length (existingCategoryMasters a' c' (runChecks cs [])) \<le> 1"
    using runChecks_at_most_one [of "[]"] by (simp add: existingCategoryMasters_def)
qed

text \<open>
  Claim C4. A call of \<open>checkAndCreateMilestones\<close> emits a cumulative-total milestone if
  and only if the user's cumulative total is exactly 10, 50, 100, 500 or 1000: it does
  at 50 and does not at 51. After a history of sequential checks from the empty
  collection, a total milestone for account \<open>a\<close> and total \<open>n\<close> exists if and only if
  \<open>n\<close> is one of the five thresholds and some check of the history was made for \<open>a\<close>
  with cumulative total exactly \<open>n\<close>; a threshold that no check equalled is never
  awarded.
\<close>

theorem total_milestone_exact_thresholds:
  "((\<exists>m \<in> set (emitted fresh accId ans usr st coll). GrowthMilestone.type m = total_milestone)
      \<longleftrightarrow> User.totalQuizzes usr \<in> {10, 50, 100, 500, 1000})
   \<and> (\<exists>m \<in> set (emitted fresh accId ans (usr\<lparr>User.totalQuizzes := 50\<rparr>) st coll).
         GrowthMilestone.type m = total_milestone)
   \<and> \<not> (\<exists>m \<in> set (emitted fresh accId ans (usr\<lparr>User.totalQuizzes := 51\<rparr>) st coll).
         GrowthMilestone.type m = total_milestone)
   \<and> ((\<exists>m \<in> set (runChecks cs []).
          GrowthMilestone.type m = total_milestone \<and> GrowthMilestone.accountId m = a
          \<and> GrowthMilestone.achievement m = TotalMilestoneText n)
      \<longleftrightarrow> (a, n) \<in> set (checkTotals cs) \<and> n \<in> {10, 50, 100, 500, 1000})"
proof -
  have th: "set totalMilestones = {10, 50, 100, 500, 1000}"
    by (simp add: totalMilestones_def)
  have iff: "(\<exists>m \<in> set (emitted fresh accId ans u st coll). GrowthMilestone.type m = total_milestone)
      \<longleftrightarrow> User.totalQuizzes u \<in> set totalMilestones" for u
    unfolding emitted_type_iff inputKeys_eq by auto
  have p50: "\<exists>m \<in> set (emitted fresh accId ans (usr\<lparr>User.totalQuizzes := 50\<rparr>) st coll).
         GrowthMilestone.type m = total_milestone"
    unfolding iff th by simp
  have p51: "\<not> (\<exists>m \<in> set (emitted fresh accId ans (usr\<lparr>User.totalQuizzes := 51\<rparr>) st coll).
         GrowthMilestone.type m = total_milestone)"
    unfolding iff th by simp
  have "(\<exists>m \<in> set (runChecks cs []).
          GrowthMilestone.type m = total_milestone \<and> GrowthMilestone.accountId m = a
          \<and> GrowthMilestone.achievement m = TotalMilestoneText n)
      \<longleftrightarrow> (\<exists>k \<in> set (filter isTotalKey (map docKey (runChecks cs []))).
            fst k = a \<and> snd (snd (snd k)) = TotalMilestoneText n)"
    by (auto simp: docKey_def isTotalKey_def)
  also have "\<dots> \<longleftrightarrow> (a, n) \<in> set (checkTotals cs) \<and> n \<in> set totalMilestones"
    unfolding total_keys_run by (auto simp: totalKey_def)
  finally have run: "(\<exists>m \<in> set (runChecks cs []).
          GrowthMilestone.type m = total_milestone \<and> GrowthMilestone.accountId m = a
          \<and> GrowthMilestone.achievement m = TotalMilestoneText n)
      \<longleftrightarrow> (a, n) \<in> set (checkTotals cs) \<and> n \<in> {10, 50, 100, 500, 1000}"
    unfolding th .
  from iff [of usr] p50 p51 run show ?thesis
    unfolding th by blast
qed

theorem category_master_at_most_once_witness:
  "(\<forall>a' c'. length (existingCategoryMasters a' c' []) \<le> 1)
   \<and> (\<forall>a' c'. length (existingCategoryMasters a' c'
         (checkAndCreateMilestones (\<lambda>k. (''m1'', \<lparr>seconds = 10, nanoseconds = 0\<rparr>)) ''u1''
            \<lparr>answerId = ''a5'', Answer.quizId = ''q5'', Answer.accountId = ''u1'',
             Answer.mergeRequestId = ''mr'', Answer.selectedAnswerIndex = 0, Answer.isCorrect = False,
             Answer.category = security, Answer.difficulty = medium,
             answeredAt = \<lparr>seconds = 9, nanoseconds = 0\<rparr>\<rparr>
            \<lparr>User.accountId = ''u1'', platform = github, User.totalQuizzes = 5,
             User.correctCount = 4, User.createdAt = \<lparr>seconds = 0, nanoseconds = 0\<rparr>,
             User.updatedAt = \<lparr>seconds = 9, nanoseconds = 0\<rparr>\<rparr>
            (Some \<lparr>statId = ''u1_security'', SkillStats.accountId = ''u1'',
                   SkillStats.category = security, SkillStats.totalQuizzes = 5,
                   SkillStats.correctCount = 4, correctRate = 4 / 5, averageDifficulty = 2,
                   lastAnsweredAt = Some \<lparr>seconds = 9, nanoseconds = 0\<rparr>, weeklyTrend = 0,
                   monthlyTrend = 0, SkillStats.calculatedAt = \<lparr>seconds = 9, nanoseconds = 0\<rparr>\<rparr>)
            [])) \<le> 1)
   \<and> length (existingCategoryMasters ''u1'' security
         (emitted (\<lambda>k. (''m1'', \<lparr>seconds = 10, nanoseconds = 0\<rparr>)) ''u1''
            \<lparr>answerId = ''a5'', Answer.quizId = ''q5'', Answer.accountId = ''u1'',
             Answer.mergeRequestId = ''mr'', Answer.selectedAnswerIndex = 0, Answer.isCorrect = False,
             Answer.category = security, Answer.difficulty = medium,
             answeredAt = \<lparr>seconds = 9, nanoseconds = 0\<rparr>\<rparr>
            \<lparr>User.accountId = ''u1'', platform = github, User.totalQuizzes = 5,
             User.correctCount = 4, User.createdAt = \<lparr>seconds = 0, nanoseconds = 0\<rparr>,
             User.updatedAt = \<lparr>seconds = 9, nanoseconds = 0\<rparr>\<rparr>
            (Some \<lparr>statId = ''u1_security'', SkillStats.accountId = ''u1'',
                   SkillStats.category = security, SkillStats.totalQuizzes = 5,
                   SkillStats.correctCount = 4, correctRate = 4 / 5, averageDifficulty = 2,
                   lastAnsweredAt = Some \<lparr>seconds = 9, nanoseconds = 0\<rparr>, weeklyTrend = 0,
                   monthlyTrend = 0, SkillStats.calculatedAt = \<lparr>seconds = 9, nanoseconds = 0\<rparr>\<rparr>)
            [])) = 1"
proof -
  let ?fresh = "\<lambda>k::nat. (''m1'', \<lparr>seconds = 10, nanoseconds = 0\<rparr>)"
  let ?ans = "\<lparr>answerId = ''a5'', Answer.quizId = ''q5'', Answer.accountId = ''u1'',
             Answer.mergeRequestId = ''mr'', Answer.selectedAnswerIndex = 0, Answer.isCorrect = False,
             Answer.category = security, Answer.difficulty = medium,
             answeredAt = \<lparr>seconds = 9, nanoseconds = 0\<rparr>\<rparr>"
  let ?usr = "\<lparr>User.accountId = ''u1'', platform = github, User.totalQuizzes = 5,
             User.correctCount = 4, User.createdAt = \<lparr>seconds = 0, nanoseconds = 0\<rparr>,
             User.updatedAt = \<lparr>seconds = 9, nanoseconds = 0\<rparr>\<rparr>"
  let ?st = "Some \<lparr>statId = ''u1_security'', SkillStats.accountId = ''u1'',
                   SkillStats.category = security, SkillStats.totalQuizzes = 5,
                   SkillStats.correctCount = 4, correctRate = 4 / 5, averageDifficulty = 2,
                   lastAnsweredAt = Some \<lparr>seconds = 9, nanoseconds = 0\<rparr>, weeklyTrend = 0,
                   monthlyTrend = 0, SkillStats.calculatedAt = \<lparr>seconds = 9, nanoseconds = 0\<rparr>\<rparr>"
  note T = category_master_at_most_once [of ?fresh "''u1''" ?ans ?usr ?st "[]" "''u1''" security "[]"]
  have h: "\<forall>a' c'. length (existingCategoryMasters a' c' []) \<le> 1"
    by (simp add: existingCategoryMasters_def)
  from T h have A: "\<forall>a' c'. length (existingCategoryMasters a' c'
         (checkAndCreateMilestones ?fresh ''u1'' ?ans ?usr ?st [])) \<le> 1"
    by blast
  from T have B: "length (existingCategoryMasters ''u1'' security
         (emitted ?fresh ''u1'' ?ans ?usr ?st [])) = 1"
    by (simp add: existingCategoryMasters_def)
  from h A B show ?thesis by blast
qed

theorem total_milestone_exact_thresholds_witness:
  "(\<exists>m \<in> set (emitted (\<lambda>k. (''m1'', \<lparr>seconds = 10, nanoseconds = 0\<rparr>)) ''u1''
            \<lparr>answerId = ''a5'', Answer.quizId = ''q5'', Answer.accountId = ''u1'',
             Answer.mergeRequestId = ''mr'', Answer.selectedAnswerIndex = 0, Answer.isCorrect = False,
             Answer.category = security, Answer.difficulty = medium,
             answeredAt = \<lparr>seconds = 9, nanoseconds = 0\<rparr>\<rparr>
            \<lparr>User.accountId = ''u1'', platform = github, User.totalQuizzes = 10,
             User.correctCount = 4, User.createdAt = \<lparr>seconds = 0, nanoseconds = 0\<rparr>,
             User.updatedAt = \<lparr>seconds = 9, nanoseconds = 0\<rparr>\<rparr>
            None []). GrowthMilestone.type m = total_milestone)
   \<and> \<not> (\<exists>m \<in> set (emitted (\<lambda>k. (''m1'', \<lparr>seconds = 10, nanoseconds = 0\<rparr>)) ''u1''
            \<lparr>answerId = ''a5'', Answer.quizId = ''q5'', Answer.accountId = ''u1'',
             Answer.mergeRequestId = ''mr'', Answer.selectedAnswerIndex = 0, Answer.isCorrect = False,
             Answer.category = security, Answer.difficulty = medium,
             answeredAt = \<lparr>seconds = 9, nanoseconds = 0\<rparr>\<rparr>
            \<lparr>User.accountId = ''u1'', platform = github, User.totalQuizzes = 11,
             User.correctCount = 4, User.createdAt = \<lparr>seconds = 0, nanoseconds = 0\<rparr>,
             User.updatedAt = \<lparr>seconds = 9, nanoseconds = 0\<rparr>\<rparr>
            None []). GrowthMilestone.type m = total_milestone)"
proof -
  let ?fresh = "\<lambda>k::nat. (''m1'', \<lparr>seconds = 10, nanoseconds = 0\<rparr>)"
  let ?ans = "\<lparr>answerId = ''a5'', Answer.quizId = ''q5'', Answer.accountId = ''u1'',
             Answer.mergeRequestId = ''mr'', Answer.selectedAnswerIndex = 0, Answer.isCorrect = False,
             Answer.category = security, Answer.difficulty = medium,
             answeredAt = \<lparr>seconds = 9, nanoseconds = 0\<rparr>\<rparr>"
  let ?u10 = "\<lparr>User.accountId = ''u1'', platform = github, User.totalQuizzes = 10,
             User.correctCount = 4, User.createdAt = \<lparr>seconds = 0, nanoseconds = 0\<rparr>,
             User.updatedAt = \<lparr>seconds = 9, nanoseconds = 0\<rparr>\<rparr>"
  let ?u11 = "\<lparr>User.accountId = ''u1'', platform = github, User.totalQuizzes = 11,
             User.correctCount = 4, User.createdAt = \<lparr>seconds = 0, nanoseconds = 0\<rparr>,
             User.updatedAt = \<lparr>seconds = 9, nanoseconds = 0\<rparr>\<rparr>"
  from total_milestone_exact_thresholds [of ?fresh "''u1''" ?ans ?u10 None "[]" "[]" "''u1''" 10]
  have A: "\<exists>m \<in> set (emitted ?fresh ''u1'' ?ans ?u10 None []).
             GrowthMilestone.type m = total_milestone"
    by simp
  from total_milestone_exact_thresholds [of ?fresh "''u1''" ?ans ?u11 None "[]" "[]" "''u1''" 10]
  have B: "\<not> (\<exists>m \<in> set (emitted ?fresh ''u1'' ?ans ?u11 None []).
             GrowthMilestone.type m = total_milestone)"
    by simp
  from A B show ?thesis by blast
qed

section \<open>Properties of the recommender\<close>



lemma fadd_zero [simp]:
  "fadd 0 (dbl x) = dbl x" "fadd 0 (fmul a b) = fmul a b" "fadd 0 (fadd a b) = fadd a b"
  "fadd (dbl x) 0 = dbl x" "fadd (fmul a b) 0 = fmul a b" "fadd (fadd a b) 0 = fadd a b"
  by (simp_all add: fadd_def dbl_def fmul_def)

lemma days_at_least:
  assumes "D < 2 ^ 53" and "0 < k"
    and "of_int (k * 86400000 - 1) / 86400000 * (1 + 1 / 2 ^ 53) < (of_int k :: rat)"
  shows "k \<le> \<lfloor>fdiv (of_int D) (1000 * 60 * 60 * 24)\<rfloor> \<longleftrightarrow> k * 86400000 \<le> D"
proof -
  let ?y = "(of_int D :: rat) / 86400000"
  have f: "fdiv (of_int D) (1000 * 60 * 60 * 24) = round64 ?y" by (simp add: fdiv_def)
  show ?thesis
  proof (cases "k * 86400000 \<le> D")
    case True
    then have "(of_int (k * 86400000) :: rat) \<le> of_int D" by (simp only: of_int_le_iff)
    then have ky: "of_int k \<le> ?y" by (simp add: pos_le_divide_eq)
    have "(0::rat) < of_int k" using assms(2) by (simp only: of_int_0_less_iff)
    with ky have y0: "0 < ?y" by linarith
    have "(of_int D :: rat) < of_int (2 ^ 53)" using assms(1) by (simp only: of_int_less_iff)
    then have "(of_int D :: rat) < 2 ^ 53" by simp
    moreover have "?y \<le> of_int D"
    proof -
      from y0 have "(0::rat) < of_int D" by (simp add: zero_less_divide_iff)
      then show ?thesis by simp
    qed
    ultimately have y1: "?y < 2 ^ 53" by linarith
    from round64_ge_int [OF y0 y1 ky] have "k \<le> \<lfloor>round64 ?y\<rfloor>" by (simp add: le_floor_iff)
    with True show ?thesis by (simp only: f)
  next
    case False
    then have "D \<le> k * 86400000 - 1" by simp
    then have "(of_int D :: rat) \<le> of_int (k * 86400000 - 1)" by (simp only: of_int_le_iff)
    then have yb: "?y \<le> of_int (k * 86400000 - 1) / 86400000" by (simp add: divide_right_mono)
    have "round64 ?y < of_int k"
    proof (cases "0 \<le> ?y")
      case True
      have "round64 ?y \<le> ?y * (1 + 1 / 2 ^ 53)" by (rule round64_pos_bounds(2) [OF True])
      also have "\<dots> \<le> of_int (k * 86400000 - 1) / 86400000 * (1 + 1 / 2 ^ 53)"
        using yb by (intro mult_right_mono) simp_all
      also have "\<dots> < of_int k" by (rule assms(3))
      finally show ?thesis .
    next
      case neg: False
      then have "round64 ?y \<le> 0" by (intro round64_nonpos) simp
      moreover have "(0::rat) < of_int k" using assms(2) by (simp only: of_int_0_less_iff)
      ultimately show ?thesis by linarith
    qed
    then have "\<not> k \<le> \<lfloor>round64 ?y\<rfloor>" by (simp add: le_floor_iff)
    with False show ?thesis by (simp only: f)
  qed
qed

lemma getDaysSince_thresholds:
  assumes "nowMs - seconds ts * 1000 < 2 ^ 53"
  shows "7 \<le> getDaysSince nowMs ts \<longleftrightarrow> 7 * 86400000 \<le> nowMs - seconds ts * 1000"
    and "3 \<le> getDaysSince nowMs ts \<longleftrightarrow> 3 * 86400000 \<le> nowMs - seconds ts * 1000"
  using days_at_least [OF assms, of 7] days_at_least [OF assms, of 3]
  by (simp_all add: getDaysSince_def Let_def)

text \<open>
  Claim C7, as amended. When the milliseconds since the last answer are a safe integer
  (below 2^53), the priority score of a category is the double-precision sum,
  accumulated from left to right, of four signals: (1 - correctRate) * 0.4 computed in
  doubles when the category's stat has at least 3 attempts and 0.2 otherwise; 0.3 when
  the category is in the profile's focus areas, else 0; 0.2 when the category was last
  answered at least 7 * 86400000 ms ago, 0.1 when at least 3 * 86400000 ms and less
  than 7 * 86400000 ms ago, 0.15 when it has no last-answered time, else 0; 0.1 when
  the stat's averageDifficulty is below 2, else 0. Every constant is the double nearest
  to the decimal. A category with 10 attempts and rate 0.2, in the focus areas, last
  answered 10 days ago, with averageDifficulty 1.5 scores exactly the double 0.92.
\<close>

theorem calculateCategoryPriority_double_sum:
  assumes "case (case find (\<lambda>s. SkillStats.category s = cat) skillStats of
                   Some st \<Rightarrow> lastAnsweredAt st | None \<Rightarrow> None) of
             None \<Rightarrow> True
           | Some ts \<Rightarrow> nowMs - seconds ts * 1000 < 2 ^ 53"
  shows "calculateCategoryPriority nowMs profile skillStats cat =
     fadd (fadd (fadd
       (case find (\<lambda>s. SkillStats.category s = cat) skillStats of
          Some st \<Rightarrow>
            if 3 \<le> SkillStats.totalQuizzes st
            then fmul (fsub 1 (correctRate st)) (dbl (4 / 10))
            else dbl (2 / 10)
        | None \<Rightarrow> dbl (2 / 10))
       (if \<exists>areas. focusAreas profile = Some areas \<and> cat \<in> set areas then dbl (3 / 10) else 0))
       (case (case find (\<lambda>s. SkillStats.category s = cat) skillStats of
                Some st \<Rightarrow> lastAnsweredAt st | None \<Rightarrow> None) of
          None \<Rightarrow> dbl (15 / 100)
        | Some ts \<Rightarrow>
            if 7 * 86400000 \<le> nowMs - seconds ts * 1000 then dbl (2 / 10)
            else if 3 * 86400000 \<le> nowMs - seconds ts * 1000 then dbl (1 / 10)
            else 0))
       (case find (\<lambda>s. SkillStats.category s = cat) skillStats of
          Some st \<Rightarrow> if averageDifficulty st < 2 then dbl (1 / 10) else 0
        | None \<Rightarrow> 0)
   \<and> calculateCategoryPriority (864000000 + 1700000000000)
        \<lparr>UserProfile.accountId = ''u1'', careerGoal = None, UserProfile.experienceLevel = ''mid'',
         yearsOfExperience = 3, focusAreas = Some [performance, security],
         selfAssessment = None, UserProfile.createdAt = \<lparr>seconds = 0, nanoseconds = 0\<rparr>,
         UserProfile.updatedAt = \<lparr>seconds = 0, nanoseconds = 0\<rparr>\<rparr>
        [\<lparr>statId = ''u1_security'', SkillStats.accountId = ''u1'',
          SkillStats.category = security, SkillStats.totalQuizzes = 10,
          SkillStats.correctCount = 2, correctRate = dbl (2 / 10), averageDifficulty = 15 / 10,
          lastAnsweredAt = Some \<lparr>seconds = 1700000000, nanoseconds = 0\<rparr>, weeklyTrend = 0,
          monthlyTrend = 0, SkillStats.calculatedAt = \<lparr>seconds = 1700000000, nanoseconds = 0\<rparr>\<rparr>]
        security = dbl (92 / 100)"
proof (rule conjI)
  show "calculateCategoryPriority nowMs profile skillStats cat =
     fadd (fadd (fadd
       (case find (\<lambda>s. SkillStats.category s = cat) skillStats of
          Some st \<Rightarrow>
            if 3 \<le> SkillStats.totalQuizzes st
            then fmul (fsub 1 (correctRate st)) (dbl (4 / 10))
            else dbl (2 / 10)
        | None \<Rightarrow> dbl (2 / 10))
       (if \<exists>areas. focusAreas profile = Some areas \<and> cat \<in> set areas then dbl (3 / 10) else 0))
       (case (case find (\<lambda>s. SkillStats.category s = cat) skillStats of
                Some st \<Rightarrow> lastAnsweredAt st | None \<Rightarrow> None) of
          None \<Rightarrow> dbl (15 / 100)
        | Some ts \<Rightarrow>
            if 7 * 86400000 \<le> nowMs - seconds ts * 1000 then dbl (2 / 10)
            else if 3 * 86400000 \<le> nowMs - seconds ts * 1000 then dbl (1 / 10)
            else 0))
       (case find (\<lambda>s. SkillStats.category s = cat) skillStats of
          Some st \<Rightarrow> if averageDifficulty st < 2 then dbl (1 / 10) else 0
        | None \<Rightarrow> 0)"
  proof (cases "find (\<lambda>s. SkillStats.category s = cat) skillStats")
    case None
    then show ?thesis
      by (cases "focusAreas profile") (simp_all add: calculateCategoryPriority_def Let_def)
  next
    case (Some st)
    show ?thesis
    proof (cases "lastAnsweredAt st")
      case None
      with Some show ?thesis
        by (cases "focusAreas profile") (simp_all add: calculateCategoryPriority_def Let_def)
    next
      case (Some ts)
      with \<open>find (\<lambda>s. SkillStats.category s = cat) skillStats = Some st\<close> assms
      have "nowMs - seconds ts * 1000 < 2 ^ 53" by simp
      note D = getDaysSince_thresholds [OF this]
      from Some \<open>find (\<lambda>s. SkillStats.category s = cat) skillStats = Some st\<close> show ?thesis
        by (cases "focusAreas profile")
           (simp_all add: calculateCategoryPriority_def Let_def D)
    qed
  qed
  show "calculateCategoryPriority (864000000 + 1700000000000)
        \<lparr>UserProfile.accountId = ''u1'', careerGoal = None, UserProfile.experienceLevel = ''mid'',
         yearsOfExperience = 3, focusAreas = Some [performance, security],
         selfAssessment = None, UserProfile.createdAt = \<lparr>seconds = 0, nanoseconds = 0\<rparr>,
         UserProfile.updatedAt = \<lparr>seconds = 0, nanoseconds = 0\<rparr>\<rparr>
        [\<lparr>statId = ''u1_security'', SkillStats.accountId = ''u1'',
          SkillStats.category = security, SkillStats.totalQuizzes = 10,
          SkillStats.correctCount = 2, correctRate = dbl (2 / 10), averageDifficulty = 15 / 10,
          lastAnsweredAt = Some \<lparr>seconds = 1700000000, nanoseconds = 0\<rparr>, weeklyTrend = 0,
          monthlyTrend = 0, SkillStats.calculatedAt = \<lparr>seconds = 1700000000, nanoseconds = 0\<rparr>\<rparr>]
        security = dbl (92 / 100)"
    by code_simp
qed

text \<open>
  Claim C7 as stated fails: the score is not always the exact weighted sum. A category
  with one attempt (signal 0.2), outside the focus areas, last answered 4 days ago
  (signal 0.1), with averageDifficulty 3 scores 0.30000000000000004, which is neither
  3/10 nor the double nearest to 3/10.
\<close>

theorem calculateCategoryPriority_double_sum_counterexample:
  "calculateCategoryPriority (345600000 + 1700000000000)
        \<lparr>UserProfile.accountId = ''u1'', careerGoal = None, UserProfile.experienceLevel = ''mid'',
         yearsOfExperience = 3, focusAreas = Some [performance, security],
         selfAssessment = None, UserProfile.createdAt = \<lparr>seconds = 0, nanoseconds = 0\<rparr>,
         UserProfile.updatedAt = \<lparr>seconds = 0, nanoseconds = 0\<rparr>\<rparr>
        [\<lparr>statId = ''u1_logic'', SkillStats.accountId = ''u1'',
          SkillStats.category = logic, SkillStats.totalQuizzes = 1,
          SkillStats.correctCount = 1, correctRate = 1, averageDifficulty = 3,
          lastAnsweredAt = Some \<lparr>seconds = 1700000000, nanoseconds = 0\<rparr>, weeklyTrend = 0,
          monthlyTrend = 0, SkillStats.calculatedAt = \<lparr>seconds = 1700000000, nanoseconds = 0\<rparr>\<rparr>]
        logic \<noteq> 2 / 10 + 0 + 1 / 10 + 0
   \<and> calculateCategoryPriority (345600000 + 1700000000000)
        \<lparr>UserProfile.accountId = ''u1'', careerGoal = None, UserProfile.experienceLevel = ''mid'',
         yearsOfExperience = 3, focusAreas = Some [performance, security],
         selfAssessment = None, UserProfile.createdAt = \<lparr>seconds = 0, nanoseconds = 0\<rparr>,
         UserProfile.updatedAt = \<lparr>seconds = 0, nanoseconds = 0\<rparr>\<rparr>
        [\<lparr>statId = ''u1_logic'', SkillStats.accountId = ''u1'',
          SkillStats.category = logic, SkillStats.totalQuizzes = 1,
          SkillStats.correctCount = 1, correctRate = 1, averageDifficulty = 3,
          lastAnsweredAt = Some \<lparr>seconds = 1700000000, nanoseconds = 0\<rparr>, weeklyTrend = 0,
          monthlyTrend = 0, SkillStats.calculatedAt = \<lparr>seconds = 1700000000, nanoseconds = 0\<rparr>\<rparr>]
        logic \<noteq> dbl (2 / 10 + 0 + 1 / 10 + 0)"
  by code_simp

theorem calculateCategoryPriority_double_sum_witness:
  "345600000 + 1700000000000 - seconds \<lparr>seconds = 1700000000, nanoseconds = 0\<rparr> * 1000 < (2::int) ^ 53
   \<and> calculateCategoryPriority (345600000 + 1700000000000)
        \<lparr>UserProfile.accountId = ''u1'', careerGoal = None, UserProfile.experienceLevel = ''mid'',
         yearsOfExperience = 3, focusAreas = Some [performance, security],
         selfAssessment = None, UserProfile.createdAt = \<lparr>seconds = 0, nanoseconds = 0\<rparr>,
         UserProfile.updatedAt = \<lparr>seconds = 0, nanoseconds = 0\<rparr>\<rparr>
        [\<lparr>statId = ''u1_security'', SkillStats.accountId = ''u1'',
          SkillStats.category = security, SkillStats.totalQuizzes = 4,
          SkillStats.correctCount = 1, correctRate = dbl (1 / 4), averageDifficulty = 3,
          lastAnsweredAt = Some \<lparr>seconds = 1700000000, nanoseconds = 0\<rparr>, weeklyTrend = 0,
          monthlyTrend = 0, SkillStats.calculatedAt = \<lparr>seconds = 1700000000, nanoseconds = 0\<rparr>\<rparr>]
        security = fadd (fadd (fmul (fsub 1 (dbl (1 / 4))) (dbl (4 / 10))) (dbl (3 / 10))) (dbl (1 / 10))"
proof -
  let ?st = "\<lparr>statId = ''u1_security'', SkillStats.accountId = ''u1'',
          SkillStats.category = security, SkillStats.totalQuizzes = 4,
          SkillStats.correctCount = 1, correctRate = dbl (1 / 4), averageDifficulty = 3,
          lastAnsweredAt = Some \<lparr>seconds = 1700000000, nanoseconds = 0\<rparr>, weeklyTrend = 0,
          monthlyTrend = 0, SkillStats.calculatedAt = \<lparr>seconds = 1700000000, nanoseconds = 0\<rparr>\<rparr>"
  have f: "find (\<lambda>s. SkillStats.category s = security) [?st] = Some ?st" by simp
  have h: "345600000 + 1700000000000 - seconds \<lparr>seconds = 1700000000, nanoseconds = 0\<rparr> * 1000 < (2::int) ^ 53"
    by simp
  have "case (case find (\<lambda>s. SkillStats.category s = security) [?st] of
                   Some st \<Rightarrow> lastAnsweredAt st | None \<Rightarrow> None) of
             None \<Rightarrow> True
           | Some ts \<Rightarrow> 345600000 + 1700000000000 - seconds ts * 1000 < 2 ^ 53"
    by simp
  from calculateCategoryPriority_double_sum [OF this, of "\<lparr>UserProfile.accountId = ''u1'', careerGoal = None, UserProfile.experienceLevel = ''mid'',
         yearsOfExperience = 3, focusAreas = Some [performance, security],
         selfAssessment = None, UserProfile.createdAt = \<lparr>seconds = 0, nanoseconds = 0\<rparr>,
         UserProfile.updatedAt = \<lparr>seconds = 0, nanoseconds = 0\<rparr>\<rparr>"] h
  show ?thesis by simp
qed



section \<open>Properties of the team aggregation\<close>

lemma foldl_plus_sum_list: "foldl (+) a xs = a + sum_list (xs :: rat list)"
  by (induction xs arbitrary: a) (simp_all add: add.assoc)

lemma map_of_tally:
  "map_of (tally us a) =
     (map_of us)(Answer.accountId a \<mapsto>
        (case map_of us (Answer.accountId a) of
           None \<Rightarrow> \<lparr>correct = (if Answer.isCorrect a then 1 else 0), total = 1\<rparr>
         | Some st \<Rightarrow> \<lparr>correct = correct st + (if Answer.isCorrect a then 1 else 0),
                       total = total st + 1\<rparr>))"
proof (cases "map_of us (Answer.accountId a)")
  case None
  then show ?thesis by (simp add: tally_def Let_def update_conv')
next
  case (Some st)
  then show ?thesis by (cases st) (simp add: tally_def Let_def update_conv')
qed

lemma keys_tally: "set (map fst (tally us a)) = insert (Answer.accountId a) (set (map fst us))"
  by (simp add: tally_def Let_def update_keys) auto

lemma distinct_tally: "distinct (map fst us) \<Longrightarrow> distinct (map fst (tally us a))"
  by (simp add: tally_def Let_def distinct_update)

lemma keys_foldl_tally:
  "set (map fst (foldl tally us answers))
     = set (map fst us) \<union> set (map Answer.accountId answers)"
  by (induction answers arbitrary: us) (auto simp: keys_tally simp del: set_map)

lemma distinct_foldl_tally:
  "distinct (map fst us) \<Longrightarrow> distinct (map fst (foldl tally us answers))"
  by (induction answers arbitrary: us) (simp_all add: distinct_tally)

lemma map_of_foldl_tally:
  "map_of (foldl tally us answers) u =
     (case map_of us u of
        None \<Rightarrow> if u \<in> set (map Answer.accountId answers)
                then Some \<lparr>correct = countCorrect answers u, total = countTotal answers u\<rparr>
                else None
      | Some st \<Rightarrow> Some \<lparr>correct = correct st + countCorrect answers u,
                          total = total st + countTotal answers u\<rparr>)"
proof (induction answers arbitrary: us)
  case Nil
  then show ?case
    by (cases "map_of us u") (simp_all add: countCorrect_def countTotal_def)
next
  case (Cons a answers)
  show ?case
  proof (cases "Answer.accountId a = u")
    case True
    then show ?thesis
      by (cases "map_of us u")
         (simp_all add: Cons.IH map_of_tally countCorrect_def countTotal_def)
  next
    case False
    then show ?thesis
      by (cases "map_of us u")
         (auto simp: Cons.IH map_of_tally countCorrect_def countTotal_def)
  qed
qed

lemma rate_of_tally:
  assumes "u \<in> set (map Answer.accountId answers)"
  shows "(case map_of (foldl tally [] answers) u of
            None \<Rightarrow> 0
          | Some st \<Rightarrow> of_nat (correct st) / of_nat (total st)) = userRate answers u"
  using assms by (simp add: map_of_foldl_tally userRate_def countCorrect_def countTotal_def)

lemma level_filter_iff:
  "accId \<in> set (map fst (filter (\<lambda>doc. Some (UserProfile.experienceLevel (snd doc)) = level) profiles))
     \<longleftrightarrow> hasLevel profiles level accId"
  by (auto simp: hasLevel_def list_ex_iff)

lemma keys_mset:
  "mset (map fst (foldl tally [] answers)) = mset (remdups (map Answer.accountId answers))"
proof -
  have "distinct (map fst (foldl tally [] answers))"
    by (rule distinct_foldl_tally) simp
  moreover have "set (map fst (foldl tally [] answers)) = set (remdups (map Answer.accountId answers))"
    by (simp add: keys_foldl_tally del: set_map)
  ultimately show ?thesis
    by (metis distinct_remdups set_eq_iff_mset_eq_distinct)
qed

lemma code_rates_eq:
  "sort (map (\<lambda>accId. case map_of (foldl tally [] answers) accId of
                         None \<Rightarrow> 0
                       | Some st \<Rightarrow> of_nat (correct st) / of_nat (total st))
             (if truthy level
              then filter (\<lambda>accId. accId \<in> set (map fst
                      (filter (\<lambda>doc. Some (UserProfile.experienceLevel (snd doc)) = level) profiles)))
                     (map fst (foldl tally [] answers))
              else map fst (foldl tally [] answers)))
   = sortedRates answers profiles level"
proof -
  let ?f = "\<lambda>accId. case map_of (foldl tally [] answers) accId of
                         None \<Rightarrow> (0::rat)
                       | Some st \<Rightarrow> of_nat (correct st) / of_nat (total st)"
  let ?K = "map fst (foldl tally [] answers)"
  let ?P = "\<lambda>accId. \<not> truthy level \<or> hasLevel profiles level accId"
  let ?F = "if truthy level
              then filter (\<lambda>accId. accId \<in> set (map fst
                      (filter (\<lambda>doc. Some (UserProfile.experienceLevel (snd doc)) = level) profiles))) ?K
              else ?K"
  let ?Q = "qualifyingUsers answers profiles level"
  have F: "?F = filter ?P ?K"
  proof (cases "truthy level")
    case True
    have "filter (\<lambda>accId. accId \<in> set (map fst
                      (filter (\<lambda>doc. Some (UserProfile.experienceLevel (snd doc)) = level) profiles))) ?K
          = filter (hasLevel profiles level) ?K"
      by (rule filter_cong [OF refl]) (simp only: level_filter_iff)
    with True show ?thesis by simp
  next
    case False
    then show ?thesis by simp
  qed
  have "mset ?F = mset ?Q"
    unfolding F qualifyingUsers_def by (simp only: mset_filter keys_mset)
  then have m: "mset (map ?f ?F) = mset (map ?f ?Q)"
    by (simp only: mset_map)
  have "map ?f ?Q = map (userRate answers) ?Q"
  proof (rule map_cong [OF refl])
    fix u assume "u \<in> set ?Q"
    then have "u \<in> set (map Answer.accountId answers)"
      by (auto simp: qualifyingUsers_def)
    then show "?f u = userRate answers u" by (rule rate_of_tally)
  qed
  with m have "mset (map ?f ?F) = mset (map (userRate answers) ?Q)" by simp
  then have "sort (map ?f ?F) = sort (map (userRate answers) ?Q)"
    by (intro properties_for_sort) simp_all
  then show ?thesis by (simp only: sortedRates_def)
qed

lemma code_users_length:
  "length (if truthy level
              then filter (\<lambda>accId. accId \<in> set (map fst
                      (filter (\<lambda>doc. Some (UserProfile.experienceLevel (snd doc)) = level) profiles)))
                     (map fst (foldl tally [] answers))
              else map fst (foldl tally [] answers))
   = length (sortedRates answers profiles level)"
proof -
  have "length (sortedRates answers profiles level)
        = length (sort (map (\<lambda>accId. case map_of (foldl tally [] answers) accId of
                         None \<Rightarrow> (0::rat)
                       | Some st \<Rightarrow> of_nat (correct st) / of_nat (total st))
             (if truthy level
              then filter (\<lambda>accId. accId \<in> set (map fst
                      (filter (\<lambda>doc. Some (UserProfile.experienceLevel (snd doc)) = level) profiles)))
                     (map fst (foldl tally [] answers))
              else map fst (foldl tally [] answers))))"
    by (simp only: code_rates_eq)
  then show ?thesis by (simp only: length_sort length_map)
qed

lemma calculate_result:
  "fst (calculateAndSaveTeamAnalytics inPeriod now prd level cat db) =
     \<lparr>analyticsId = prd @ idSuffix level @ idSuffix cat,
      period = prd,
      TeamAnalytics.experienceLevel = level,
      TeamAnalytics.category = cat,
      avgCorrectRate =
        (let rates = sortedRates (answersInPeriod inPeriod prd cat db) (userProfilesCollection db) level
         in if rates = [] then 0 else sum_list rates / of_nat (length rates)),
      TeamAnalytics.totalQuizzes = length (answersInPeriod inPeriod prd cat db),
      activeUsers =
        length (sortedRates (answersInPeriod inPeriod prd cat db) (userProfilesCollection db) level),
      percentile25 =
        getPercentile (sortedRates (answersInPeriod inPeriod prd cat db) (userProfilesCollection db) level) (25 / 100),
      percentile50 =
        getPercentile (sortedRates (answersInPeriod inPeriod prd cat db) (userProfilesCollection db) level) (5 / 10),
      percentile75 =
        getPercentile (sortedRates (answersInPeriod inPeriod prd cat db) (userProfilesCollection db) level) (75 / 100),
      percentile90 =
        getPercentile (sortedRates (answersInPeriod inPeriod prd cat db) (userProfilesCollection db) level) (9 / 10),
      TeamAnalytics.calculatedAt = now\<rparr>"
  by (simp only: calculateAndSaveTeamAnalytics_def Let_def fst_conv code_rates_eq code_users_length
        foldl_plus_sum_list length_greater_0_conv add_0_left if_not_P if_P split: if_splits)
     simp

lemma calculate_store:
  "snd (calculateAndSaveTeamAnalytics inPeriod now prd level cat db) =
     db\<lparr>teamAnalyticsCollection :=
          AList.update (prd @ idSuffix level @ idSuffix cat)
            (fst (calculateAndSaveTeamAnalytics inPeriod now prd level cat db))
            (teamAnalyticsCollection db)\<rparr>"
  by (simp only: calculateAndSaveTeamAnalytics_def Let_def fst_conv snd_conv)





lemma answersInPeriod_cong:
  "answersCollection db' = answersCollection db
     \<Longrightarrow> answersInPeriod inPeriod prd cat db' = answersInPeriod inPeriod prd cat db"
  by (simp add: answersInPeriod_def)

lemma calculate_result_cong:
  assumes "answersCollection db' = answersCollection db"
    and "userProfilesCollection db' = userProfilesCollection db"
  shows "fst (calculateAndSaveTeamAnalytics inPeriod now' prd level cat db')
         = (fst (calculateAndSaveTeamAnalytics inPeriod now prd level cat db))
             \<lparr>TeamAnalytics.calculatedAt := now'\<rparr>"
  by (simp add: calculate_result answersInPeriod_cong [OF assms(1)] assms(2))

text \<open>
  Claim C9, as amended. Running the aggregation twice for the same period, level and
  category leaves the answers and the profiles untouched; the record of the second run
  equals the record of the first run in every field except \<open>calculatedAt\<close>, which is the
  clock reading of the second run; the database after the two runs is the database
  after the second run alone (the stored record is overwritten, nothing accumulates),
  and the stored record is the one returned.
\<close>

theorem calculateAndSaveTeamAnalytics_rerun:
  "(let run1 = calculateAndSaveTeamAnalytics inPeriod now1 prd level cat db;
        run2 = calculateAndSaveTeamAnalytics inPeriod now2 prd level cat (snd run1)
    in answersCollection (snd run1) = answersCollection db
       \<and> userProfilesCollection (snd run1) = userProfilesCollection db
       \<and> fst run2 = (fst run1)\<lparr>TeamAnalytics.calculatedAt := now2\<rparr>
       \<and> snd run2 = snd (calculateAndSaveTeamAnalytics inPeriod now2 prd level cat db)
       \<and> map_of (teamAnalyticsCollection (snd run2)) (analyticsId (fst run2)) = Some (fst run2))"
proof -
  let ?run1 = "calculateAndSaveTeamAnalytics inPeriod now1 prd level cat db"
  let ?run2 = "calculateAndSaveTeamAnalytics inPeriod now2 prd level cat (snd ?run1)"
  let ?single = "calculateAndSaveTeamAnalytics inPeriod now2 prd level cat db"
  let ?id = "prd @ idSuffix level @ idSuffix cat"
  have a: "answersCollection (snd ?run1) = answersCollection db"
    by (simp add: calculate_store [of inPeriod now1 prd level cat db])
  have p: "userProfilesCollection (snd ?run1) = userProfilesCollection db"
    by (simp add: calculate_store [of inPeriod now1 prd level cat db])
  have r: "fst ?run2 = (fst ?run1)\<lparr>TeamAnalytics.calculatedAt := now2\<rparr>"
    by (rule calculate_result_cong [OF a p])
  have r': "fst ?run2 = fst ?single"
    using calculate_result_cong [OF a p, of inPeriod now2 prd level cat now2]
          calculate_result_cong [OF refl refl, of inPeriod now2 prd level cat db now2]
    by (simp add: calculate_result)
  have s: "snd ?run2 = snd ?single"
    unfolding calculate_store [of inPeriod now2 prd level cat "snd ?run1"]
              calculate_store [of inPeriod now2 prd level cat db] r'
    by (simp add: calculate_store [of inPeriod now1 prd level cat db])
  have i: "analyticsId (fst ?run2) = ?id"
    by (simp add: calculate_result)
  have m: "map_of (teamAnalyticsCollection (snd ?run2)) (analyticsId (fst ?run2)) = Some (fst ?run2)"
    unfolding i
    by (simp add: calculate_store [of inPeriod now2 prd level cat "snd ?run1"] update_conv')
  from a p r s m show ?thesis
    unfolding Let_def by blast
qed

text \<open>
  Claim C9 as stated fails: on the empty database, a run at clock 1 and a second run
  at clock 2 return different records.
\<close>

theorem calculateAndSaveTeamAnalytics_rerun_counterexample:
  "fst (calculateAndSaveTeamAnalytics (\<lambda>prd t. True) \<lparr>seconds = 2, nanoseconds = 0\<rparr>
          ''2025-01'' None None
          (snd (calculateAndSaveTeamAnalytics (\<lambda>prd t. True) \<lparr>seconds = 1, nanoseconds = 0\<rparr>
                  ''2025-01'' None None
                  \<lparr>usersCollection = [], answersCollection = [], userProfilesCollection = [],
                   skillStatsCollection = [], growthMilestonesCollection = [],
                   teamAnalyticsCollection = []\<rparr>)))
   \<noteq> fst (calculateAndSaveTeamAnalytics (\<lambda>prd t. True) \<lparr>seconds = 1, nanoseconds = 0\<rparr>
          ''2025-01'' None None
          \<lparr>usersCollection = [], answersCollection = [], userProfilesCollection = [],
           skillStatsCollection = [], growthMilestonesCollection = [],
           teamAnalyticsCollection = []\<rparr>)"
  by (simp add: calculate_result)

theorem calculateAndSaveTeamAnalytics_rerun_witness:
  "fst (calculateAndSaveTeamAnalytics (\<lambda>prd t. True) \<lparr>seconds = 2, nanoseconds = 0\<rparr>
          ''2025-01'' None None
          (snd (calculateAndSaveTeamAnalytics (\<lambda>prd t. True) \<lparr>seconds = 1, nanoseconds = 0\<rparr>
                  ''2025-01'' None None
                  \<lparr>usersCollection = [], answersCollection = [], userProfilesCollection = [],
                   skillStatsCollection = [], growthMilestonesCollection = [],
                   teamAnalyticsCollection = []\<rparr>)))
   = (fst (calculateAndSaveTeamAnalytics (\<lambda>prd t. True) \<lparr>seconds = 1, nanoseconds = 0\<rparr>
          ''2025-01'' None None
          \<lparr>usersCollection = [], answersCollection = [], userProfilesCollection = [],
           skillStatsCollection = [], growthMilestonesCollection = [],
           teamAnalyticsCollection = []\<rparr>))\<lparr>TeamAnalytics.calculatedAt := \<lparr>seconds = 2, nanoseconds = 0\<rparr>\<rparr>"
  using calculateAndSaveTeamAnalytics_rerun
    [of "\<lambda>prd t. True" "\<lparr>seconds = 1, nanoseconds = 0\<rparr>" "''2025-01''" None None
        "\<lparr>usersCollection = [], answersCollection = [], userProfilesCollection = [],
           skillStatsCollection = [], growthMilestonesCollection = [],
           teamAnalyticsCollection = []\<rparr>" "\<lparr>seconds = 2, nanoseconds = 0\<rparr>"]
  unfolding Let_def by blast

section \<open>Properties of the answer command\<close>

lemma getAnswersByUser_set:
  "set (getAnswersByUser accId db)
     = {a \<in> set (answersCollection db). Answer.accountId a = accId}"
  by (simp add: getAnswersByUser_def)

text \<open>
  Claim C10. When the answers collection already holds an answer of the account for
  the quiz, \<open>handleAnswerCommand\<close> returns a result and the database unchanged: no
  answer is created and neither the user's totals nor any skill stat is updated. The
  result carries a stored answer of that account for that quiz, its \<open>isCorrect\<close> is the
  stored answer's, \<open>alreadyAnswered\<close> is true and no milestone is reported.
\<close>

theorem handleAnswerCommand_already_answered:
  assumes "\<exists>a \<in> set (answersCollection db).
             Answer.accountId a = accId \<and> Answer.quizId a = Quiz.quizId qz"
  shows "\<exists>r. handleAnswerCommand src now2 now3 accId qz answerIndex db = (Inr r, db)
           \<and> answer r \<in> set (answersCollection db)
           \<and> Answer.accountId (answer r) = accId
           \<and> Answer.quizId (answer r) = Quiz.quizId qz
           \<and> AnswerCommandResult.isCorrect r = Answer.isCorrect (answer r)
           \<and> alreadyAnswered r = Some True
           \<and> newMilestones r = []
           \<and> success r"
proof -
  from assms have "\<exists>a \<in> set (getAnswersByUser accId db). Answer.quizId a = Quiz.quizId qz"
    by (auto simp: getAnswersByUser_set)
  then obtain ua where
    f: "find (\<lambda>a. Answer.quizId a = Quiz.quizId qz) (getAnswersByUser accId db) = Some ua"
    by (cases "find (\<lambda>a. Answer.quizId a = Quiz.quizId qz) (getAnswersByUser accId db)")
       (auto simp: find_None_iff)
  then have "ua \<in> set (getAnswersByUser accId db)" and q: "Answer.quizId ua = Quiz.quizId qz"
    by (auto simp: find_Some_iff)
  then have m: "ua \<in> set (answersCollection db)" and a: "Answer.accountId ua = accId"
    by (auto simp: getAnswersByUser_set)
  show ?thesis
    using f m a q by (simp add: handleAnswerCommand_def Let_def)
qed

theorem handleAnswerCommand_already_answered_witness:
  "(\<exists>a \<in> set (answersCollection \<lparr>usersCollection = [(''u1'', \<lparr>User.accountId = ''u1'', platform = github, User.totalQuizzes = 1,
                User.correctCount = 0, User.createdAt = \<lparr>seconds = 0, nanoseconds = 0\<rparr>,
                User.updatedAt = \<lparr>seconds = 3, nanoseconds = 0\<rparr>\<rparr>)],
        answersCollection = [\<lparr>answerId = ''a0'', Answer.quizId = ''q1'', Answer.accountId = ''u1'',
             Answer.mergeRequestId = ''mr1'', Answer.selectedAnswerIndex = 0,
             Answer.isCorrect = False, Answer.category = logic, Answer.difficulty = medium,
             answeredAt = \<lparr>seconds = 2, nanoseconds = 0\<rparr>\<rparr>],
        userProfilesCollection = [], skillStatsCollection = [],
        growthMilestonesCollection = [], teamAnalyticsCollection = []\<rparr>).
       Answer.accountId a = ''u1'' \<and> Answer.quizId a = Quiz.quizId \<lparr>Quiz.quizId = ''q1'', Quiz.mergeRequestId = ''mr1'', Quiz.accountId = ''u1'',
        questionText = ''question'', Quiz.category = logic, Quiz.difficulty = medium,
        options = [''a'', ''b'', ''c'', ''d''], correctAnswerIndex = 2,
        explanation = ''because'', diffReference = ''diff'', status = pending,
        Quiz.createdAt = \<lparr>seconds = 1, nanoseconds = 0\<rparr>\<rparr>)
   \<and> (\<exists>r. handleAnswerCommand (''a1'', \<lparr>seconds = 5, nanoseconds = 0\<rparr>)
            \<lparr>seconds = 6, nanoseconds = 0\<rparr> \<lparr>seconds = 7, nanoseconds = 0\<rparr> ''u1''
            \<lparr>Quiz.quizId = ''q1'', Quiz.mergeRequestId = ''mr1'', Quiz.accountId = ''u1'',
        questionText = ''question'', Quiz.category = logic, Quiz.difficulty = medium,
        options = [''a'', ''b'', ''c'', ''d''], correctAnswerIndex = 2,
        explanation = ''because'', diffReference = ''diff'', status = pending,
        Quiz.createdAt = \<lparr>seconds = 1, nanoseconds = 0\<rparr>\<rparr> 2 \<lparr>usersCollection = [(''u1'', \<lparr>User.accountId = ''u1'', platform = github, User.totalQuizzes = 1,
                User.correctCount = 0, User.createdAt = \<lparr>seconds = 0, nanoseconds = 0\<rparr>,
                User.updatedAt = \<lparr>seconds = 3, nanoseconds = 0\<rparr>\<rparr>)],
        answersCollection = [\<lparr>answerId = ''a0'', Answer.quizId = ''q1'', Answer.accountId = ''u1'',
             Answer.mergeRequestId = ''mr1'', Answer.selectedAnswerIndex = 0,
             Answer.isCorrect = False, Answer.category = logic, Answer.difficulty = medium,
             answeredAt = \<lparr>seconds = 2, nanoseconds = 0\<rparr>\<rparr>],
        userProfilesCollection = [], skillStatsCollection = [],
        growthMilestonesCollection = [], teamAnalyticsCollection = []\<rparr> = (Inr r, \<lparr>usersCollection = [(''u1'', \<lparr>User.accountId = ''u1'', platform = github, User.totalQuizzes = 1,
                User.correctCount = 0, User.createdAt = \<lparr>seconds = 0, nanoseconds = 0\<rparr>,
                User.updatedAt = \<lparr>seconds = 3, nanoseconds = 0\<rparr>\<rparr>)],
        answersCollection = [\<lparr>answerId = ''a0'', Answer.quizId = ''q1'', Answer.accountId = ''u1'',
             Answer.mergeRequestId = ''mr1'', Answer.selectedAnswerIndex = 0,
             Answer.isCorrect = False, Answer.category = logic, Answer.difficulty = medium,
             answeredAt = \<lparr>seconds = 2, nanoseconds = 0\<rparr>\<rparr>],
        userProfilesCollection = [], skillStatsCollection = [],
        growthMilestonesCollection = [], teamAnalyticsCollection = []\<rparr>)
          \<and> answer r = \<lparr>answerId = ''a0'', Answer.quizId = ''q1'', Answer.accountId = ''u1'',
             Answer.mergeRequestId = ''mr1'', Answer.selectedAnswerIndex = 0,
             Answer.isCorrect = False, Answer.category = logic, Answer.difficulty = medium,
             answeredAt = \<lparr>seconds = 2, nanoseconds = 0\<rparr>\<rparr>
          \<and> \<not> AnswerCommandResult.isCorrect r
          \<and> alreadyAnswered r = Some True)"
proof -
  let ?db = "\<lparr>usersCollection = [(''u1'', \<lparr>User.accountId = ''u1'', platform = github, User.totalQuizzes = 1,
                User.correctCount = 0, User.createdAt = \<lparr>seconds = 0, nanoseconds = 0\<rparr>,
                User.updatedAt = \<lparr>seconds = 3, nanoseconds = 0\<rparr>\<rparr>)],
        answersCollection = [\<lparr>answerId = ''a0'', Answer.quizId = ''q1'', Answer.accountId = ''u1'',
             Answer.mergeRequestId = ''mr1'', Answer.selectedAnswerIndex = 0,
             Answer.isCorrect = False, Answer.category = logic, Answer.difficulty = medium,
             answeredAt = \<lparr>seconds = 2, nanoseconds = 0\<rparr>\<rparr>],
        userProfilesCollection = [], skillStatsCollection = [],
        growthMilestonesCollection = [], teamAnalyticsCollection = []\<rparr>"
  let ?qz = "\<lparr>Quiz.quizId = ''q1'', Quiz.mergeRequestId = ''mr1'', Quiz.accountId = ''u1'',
        questionText = ''question'', Quiz.category = logic, Quiz.difficulty = medium,
        options = [''a'', ''b'', ''c'', ''d''], correctAnswerIndex = 2,
        explanation = ''because'', diffReference = ''diff'', status = pending,
        Quiz.createdAt = \<lparr>seconds = 1, nanoseconds = 0\<rparr>\<rparr>"
  have h: "\<exists>a \<in> set (answersCollection ?db).
       Answer.accountId a = ''u1'' \<and> Answer.quizId a = Quiz.quizId ?qz"
    by simp
  from handleAnswerCommand_already_answered [OF h,
         of "(''a1'', \<lparr>seconds = 5, nanoseconds = 0\<rparr>)" "\<lparr>seconds = 6, nanoseconds = 0\<rparr>"
            "\<lparr>seconds = 7, nanoseconds = 0\<rparr>" 2]
  obtain r where
    r: "handleAnswerCommand (''a1'', \<lparr>seconds = 5, nanoseconds = 0\<rparr>)
            \<lparr>seconds = 6, nanoseconds = 0\<rparr> \<lparr>seconds = 7, nanoseconds = 0\<rparr> ''u1''
            ?qz 2 ?db = (Inr r, ?db)"
       "answer r \<in> set (answersCollection ?db)"
       "AnswerCommandResult.isCorrect r = Answer.isCorrect (answer r)"
       "alreadyAnswered r = Some True"
    by blast
  from r(2) have "answer r = \<lparr>answerId = ''a0'', Answer.quizId = ''q1'', Answer.accountId = ''u1'',
             Answer.mergeRequestId = ''mr1'', Answer.selectedAnswerIndex = 0,
             Answer.isCorrect = False, Answer.category = logic, Answer.difficulty = medium,
             answeredAt = \<lparr>seconds = 2, nanoseconds = 0\<rparr>\<rparr>" by simp
  with r h show ?thesis by auto
qed

text \<open>
  For every input, \<open>handleAnswerCommand\<close> leaves the milestones collection as it was
  and reports an empty list of new milestones.
\<close>

lemma handleAnswerCommand_milestones_untouched:
  "growthMilestonesCollection (snd (handleAnswerCommand src now2 now3 accId qz answerIndex db))
     = growthMilestonesCollection db
   \<and> (case fst (handleAnswerCommand src now2 now3 accId qz answerIndex db) of
         Inl err \<Rightarrow> True
       | Inr r \<Rightarrow> newMilestones r = [])"
  by (auto simp: handleAnswerCommand_def Let_def createAnswer_def updateUserStats_def
           split: option.splits sum.splits)

text \<open>
  Claim C5 at a concrete input. A user with no answers answers a new quiz correctly.
  \<open>handleAnswerCommand\<close> stores the answer, raises the user's correct count to 1 and
  updates the skill stat, but reports no milestone and creates none, although the
  milestone rules applied to the updated user and stat yield a first-correct
  milestone: the handler never runs the milestone check.
\<close>

theorem handleAnswerCommand_first_correct_not_surfaced:
  "(\<exists>r db'. handleAnswerCommand (''a1'', \<lparr>seconds = 5, nanoseconds = 0\<rparr>)
          \<lparr>seconds = 6, nanoseconds = 0\<rparr> \<lparr>seconds = 7, nanoseconds = 0\<rparr> ''u1''
          \<lparr>Quiz.quizId = ''q1'', Quiz.mergeRequestId = ''mr1'', Quiz.accountId = ''u1'',
        questionText = ''question'', Quiz.category = logic, Quiz.difficulty = medium,
        options = [''a'', ''b'', ''c'', ''d''], correctAnswerIndex = 2,
        explanation = ''because'', diffReference = ''diff'', status = pending,
        Quiz.createdAt = \<lparr>seconds = 1, nanoseconds = 0\<rparr>\<rparr> 2
          \<lparr>usersCollection = [(''u1'', \<lparr>User.accountId = ''u1'', platform = github, User.totalQuizzes = 0,
                User.correctCount = 0, User.createdAt = \<lparr>seconds = 0, nanoseconds = 0\<rparr>,
                User.updatedAt = \<lparr>seconds = 0, nanoseconds = 0\<rparr>\<rparr>)],
        answersCollection = [], userProfilesCollection = [], skillStatsCollection = [],
        growthMilestonesCollection = [], teamAnalyticsCollection = []\<rparr> = (Inr r, db')
       \<and> AnswerCommandResult.isCorrect r
       \<and> alreadyAnswered r = None
       \<and> newMilestones r = []
       \<and> growthMilestonesCollection db' = []
       \<and> (\<exists>usr. map_of (usersCollection db') ''u1'' = Some usr
              \<and> User.correctCount usr = 1
              \<and> map (\<lambda>m. CreateGrowthMilestoneInput.type m)
                   (milestoneInputs ''u1'' (answer r) usr
                      (map_of (skillStatsCollection db') ''u1_logic'')
                      (growthMilestonesCollection db'))
                 = [first_correct]))"
  by (simp add: handleAnswerCommand_def Let_def createAnswer_def updateUserStats_def
        getAnswersByUser_def getSkillStatsByUser_def updateSkillStats_def
        generateSkillStatsId_def milestoneInputs_def totalMilestones_def)

end
